theory Spec2Isabelle
  imports Main "HOL-Library.Word"
begin

unbundle bit_operations_syntax

section \<open>The on-disk format\<close>

text \<open>
  The checker \<^verbatim>\<open>xcheck.c\<close> includes the headers \<^verbatim>\<open>fs.h\<close>, \<^verbatim>\<open>param.h\<close>, \<^verbatim>\<open>stat.h\<close> and
  \<^verbatim>\<open>types.h\<close>, which are not part of the sources at hand. The constants they define are
  therefore parameters of the model, collected in one record: the block size, the width of a
  directory entry's name, the three type tags and the sizes of the two on-disk structs.
  \<^verbatim>\<open>uint\<close> is a 32-bit unsigned integer; \<^verbatim>\<open>size_t\<close> and \<^verbatim>\<open>off_t\<close> are 64 bits wide and are
  modelled by \<open>nat\<close> (the sums the program forms in them stay far below \<open>2 ^ 63\<close> for every
  block size and struct size a C \<^verbatim>\<open>int\<close> can hold).
\<close>

type_synonym u32 = "32 word"

record fsconsts =
  BSIZE :: nat
  DIRSIZ :: nat
  T_DIR :: int
  T_FILE :: int
  T_DEV :: int
  sz_dinode :: nat
  sz_dirent :: nat

text \<open>Modelled from the spec: an inode has 12 direct block numbers (\<^verbatim>\<open>NDIRECT\<close> of the
  missing \<^verbatim>\<open>fs.h\<close>).\<close>

definition NDIRECT :: nat where
  "NDIRECT = 12"

text \<open>Modelled from the spec: the indirect fan-out is the block size divided by the four
  bytes of a block number (\<^verbatim>\<open>NINDIRECT\<close> of the missing \<^verbatim>\<open>fs.h\<close>).\<close>

definition NINDIRECT :: "fsconsts \<Rightarrow> nat" where
  "NINDIRECT K = BSIZE K div 4"

text \<open>The superblock fields the checker reads.\<close>

record superblock =
  size_sb :: u32
  nblocks :: u32
  ninodes :: u32
  inodestart :: u32
  bmapstart :: u32

text \<open>
  An on-disk inode. \<open>type\<close> is the value of the field as the comparisons of the program see
  it (promoted to \<^verbatim>\<open>int\<close>); \<open>nlink\<close> is the value of the link count as the comparison
  \<^verbatim>\<open>cnt != nd.nlink\<close> sees it (converted to \<^verbatim>\<open>uint\<close>); \<open>addrs\<close> is the array of
  \<^verbatim>\<open>NDIRECT + 1\<close> block numbers, indexed from 0, the last one being the indirect pointer.
\<close>

record dinode =
  type :: int
  nlink :: u32
  size_dn :: u32
  addrs :: "nat \<Rightarrow> u32"

text \<open>A directory entry: the inode number (as converted to \<^verbatim>\<open>uint\<close> by the comparisons)
  and the \<^verbatim>\<open>DIRSIZ\<close> bytes of the name.\<close>

record dirent =
  inum :: u32
  name :: string

text \<open>
  The image file, seen through the typed reads the program performs: each field gives the
  value that \<^verbatim>\<open>lseek\<close> to a byte offset followed by \<^verbatim>\<open>read\<close> of one object of that type
  delivers. Every read is taken to succeed (the program never looks at the result of
  \<^verbatim>\<open>read\<close>).
\<close>

record image =
  rd_superblock :: "nat \<Rightarrow> superblock"
  rd_dinode :: "nat \<Rightarrow> dinode"
  rd_dirent :: "nat \<Rightarrow> dirent"
  rd_uint :: "nat \<Rightarrow> u32"
  rd_uchar :: "nat \<Rightarrow> 8 word"

text \<open>\<^verbatim>\<open>a * BSIZE\<close> for a \<^verbatim>\<open>uint\<close> \<open>a\<close>: the product is formed in 32 bits and wraps.\<close>

definition blk_off :: "fsconsts \<Rightarrow> u32 \<Rightarrow> nat" where
  "blk_off K a = unat (a * of_nat (BSIZE K))"

text \<open>\<^verbatim>\<open>sblock.inodestart * BSIZE + i * sizeof(struct dinode)\<close>: the offset of inode \<open>i\<close>.\<close>

definition inode_off :: "fsconsts \<Rightarrow> superblock \<Rightarrow> nat \<Rightarrow> nat" where
  "inode_off K sb i = blk_off K (inodestart sb) + i * sz_dinode K"

text \<open>\<^verbatim>\<open>BSIZE / sizeof(struct dirent)\<close>: the number of entry records in a block.\<close>

definition DPB :: "fsconsts \<Rightarrow> nat" where
  "DPB K = BSIZE K div sz_dirent K"

text \<open>The \<open>k\<close>-th entry record of block \<open>a\<close>, and the \<open>k\<close>-th block number stored in block \<open>a\<close>.\<close>

definition entry_at :: "fsconsts \<Rightarrow> image \<Rightarrow> u32 \<Rightarrow> nat \<Rightarrow> dirent" where
  "entry_at K img a k = rd_dirent img (blk_off K a + k * sz_dirent K)"

definition ind_at :: "fsconsts \<Rightarrow> image \<Rightarrow> u32 \<Rightarrow> nat \<Rightarrow> u32" where
  "ind_at K img a k = rd_uint img (blk_off K a + k * 4)"

text \<open>
  \<^verbatim>\<open>strncmp(s, t, n)\<close> on byte strings: the bytes are compared one by one, at most \<open>n\<close> of
  them, up to the first difference or the first NUL. A string that ends before that reads as
  NUL there (the terminator of a literal).
\<close>

fun strncmp :: "string \<Rightarrow> string \<Rightarrow> nat \<Rightarrow> int" where
  "strncmp s t 0 = 0"
| "strncmp s t (Suc n) =
     (let a = (case s of [] \<Rightarrow> CHR 0x00 | c # _ \<Rightarrow> c);
          b = (case t of [] \<Rightarrow> CHR 0x00 | c # _ \<Rightarrow> c)
      in if a \<noteq> b then int (of_char a) - int (of_char b)
         else if a = CHR 0x00 then 0
         else strncmp (tl s) (tl t) n)"

section \<open>The checks\<close>

subsection \<open>Check 1: the type of an inode\<close>

definition error_check_1 :: "fsconsts \<Rightarrow> dinode \<Rightarrow> int" where
  "error_check_1 K nd =
     (if type nd \<noteq> 0 \<and> type nd \<noteq> T_DEV K \<and> type nd \<noteq> T_DIR K \<and> type nd \<noteq> T_FILE K
      then 1 else 0)"

subsection \<open>Check 2: the range of the block addresses\<close>

definition bitmap_end :: "fsconsts \<Rightarrow> superblock \<Rightarrow> u32" where
  "bitmap_end K sb =
     (if size_sb sb mod of_nat (8 * BSIZE K) \<noteq> 0
      then bmapstart sb + size_sb sb div of_nat (8 * BSIZE K) + 1
      else bmapstart sb + size_sb sb div of_nat (8 * BSIZE K))"

definition fs_end :: "superblock \<Rightarrow> u32" where
  "fs_end sb = size_sb sb - 1"

text \<open>The test both loops apply to a block number.\<close>

definition bad_addr :: "u32 \<Rightarrow> u32 \<Rightarrow> u32 \<Rightarrow> bool" where
  "bad_addr be fe a = (a \<noteq> 0 \<and> (a < be \<or> a > fe))"

text \<open>The loop over the \<^verbatim>\<open>NDIRECT + 1\<close> slots of the inode.\<close>

fun ec2_direct :: "u32 \<Rightarrow> u32 \<Rightarrow> dinode \<Rightarrow> nat list \<Rightarrow> bool" where
  "ec2_direct be fe nd [] = False"
| "ec2_direct be fe nd (i # is) =
     (if bad_addr be fe (addrs nd i) then True else ec2_direct be fe nd is)"

text \<open>The loop over the \<^verbatim>\<open>NINDIRECT\<close> numbers read one after the other from the indirect
  block.\<close>

fun ec2_indirect :: "fsconsts \<Rightarrow> image \<Rightarrow> u32 \<Rightarrow> u32 \<Rightarrow> u32 \<Rightarrow> nat list \<Rightarrow> bool" where
  "ec2_indirect K img be fe a [] = False"
| "ec2_indirect K img be fe a (i # is) =
     (if bad_addr be fe (ind_at K img a i) then True else ec2_indirect K img be fe a is)"

definition error_check_2 :: "fsconsts \<Rightarrow> image \<Rightarrow> superblock \<Rightarrow> dinode \<Rightarrow> int" where
  "error_check_2 K img sb nd =
     (if ec2_direct (bitmap_end K sb) (fs_end sb) nd [0..<NDIRECT + 1] then 1
      else if addrs nd NDIRECT \<noteq> 0
      then (if ec2_indirect K img (bitmap_end K sb) (fs_end sb) (addrs nd NDIRECT)
                 [0..<NINDIRECT K]
            then 1 else 0)
      else 0)"

subsection \<open>Check 3: the root directory\<close>

text \<open>The test applied to an entry record of the root directory.\<close>

definition ec3_entry :: "fsconsts \<Rightarrow> dirent \<Rightarrow> bool" where
  "ec3_entry K dir_entry =
     (if inum dir_entry \<noteq> 0
      then strncmp (name dir_entry) ''..'' (DIRSIZ K) = 0 \<and> inum dir_entry = 1
      else False)"

text \<open>The entry records of one block, read one after the other.\<close>

fun ec3_block :: "fsconsts \<Rightarrow> image \<Rightarrow> u32 \<Rightarrow> nat list \<Rightarrow> bool" where
  "ec3_block K img a [] = False"
| "ec3_block K img a (dir_cnt # ds) =
     (if ec3_entry K (entry_at K img a dir_cnt) then True else ec3_block K img a ds)"

fun ec3_direct :: "fsconsts \<Rightarrow> image \<Rightarrow> dinode \<Rightarrow> nat list \<Rightarrow> bool" where
  "ec3_direct K img nd [] = False"
| "ec3_direct K img nd (i # is) =
     (if addrs nd i \<noteq> 0
      then (if ec3_block K img (addrs nd i) [0..<DPB K] then True
            else ec3_direct K img nd is)
      else ec3_direct K img nd is)"

definition error_check_3 :: "fsconsts \<Rightarrow> image \<Rightarrow> superblock \<Rightarrow> int" where
  "error_check_3 K img sb =
     (if type (rd_dinode img (blk_off K (inodestart sb) + sz_dinode K)) \<noteq> T_DIR K then 1
      else if ec3_direct K img (rd_dinode img (blk_off K (inodestart sb) + sz_dinode K))
                [0..<NDIRECT]
      then 0
      else 1)"

subsection \<open>Check 4: the shape of a directory\<close>

text \<open>What one entry record adds to the counter \<^verbatim>\<open>chk\<close>.\<close>

definition ec4_entry :: "fsconsts \<Rightarrow> u32 \<Rightarrow> dirent \<Rightarrow> int \<Rightarrow> int" where
  "ec4_entry K inode_num dir_entry chk =
     chk
     + (if strncmp (name dir_entry) ''.'' (DIRSIZ K) = 0 \<and> inum dir_entry = inode_num
        then 1 else 0)
     + (if strncmp (name dir_entry) ''..'' (DIRSIZ K) = 0 then 1 else 0)"

fun ec4_block :: "fsconsts \<Rightarrow> image \<Rightarrow> u32 \<Rightarrow> u32 \<Rightarrow> nat list \<Rightarrow> int \<Rightarrow> int" where
  "ec4_block K img inode_num a [] chk = chk"
| "ec4_block K img inode_num a (dir_cnt # ds) chk =
     ec4_block K img inode_num a ds (ec4_entry K inode_num (entry_at K img a dir_cnt) chk)"

fun ec4_direct :: "fsconsts \<Rightarrow> image \<Rightarrow> u32 \<Rightarrow> dinode \<Rightarrow> nat list \<Rightarrow> int \<Rightarrow> int" where
  "ec4_direct K img inode_num nd [] chk = chk"
| "ec4_direct K img inode_num nd (i # is) chk =
     ec4_direct K img inode_num nd is
       (if addrs nd i \<noteq> 0 then ec4_block K img inode_num (addrs nd i) [0..<DPB K] chk
        else chk)"

definition error_check_4 :: "fsconsts \<Rightarrow> image \<Rightarrow> dinode \<Rightarrow> u32 \<Rightarrow> int" where
  "error_check_4 K img nd inode_num =
     (if ec4_direct K img inode_num nd [0..<NDIRECT] 0 \<noteq> 2 then 1 else 0)"

subsection \<open>Check 5: blocks in use are marked in the bitmap\<close>

text \<open>Four bytes are read at the byte of the bitmap that holds the bit of block \<open>a\<close>, shifted
  right by \<open>a % 8\<close>, and the lowest bit is tested.\<close>

definition ec5_marked_free :: "fsconsts \<Rightarrow> image \<Rightarrow> superblock \<Rightarrow> u32 \<Rightarrow> bool" where
  "ec5_marked_free K img sb a =
     (drop_bit (unat (a mod 8))
        (rd_uint img (unat (bmapstart sb * of_nat (BSIZE K) + a div 8))) AND 1 = 0)"

definition ec5_addr :: "fsconsts \<Rightarrow> image \<Rightarrow> superblock \<Rightarrow> u32 \<Rightarrow> bool" where
  "ec5_addr K img sb a = (if a \<noteq> 0 then ec5_marked_free K img sb a else False)"

fun ec5_direct :: "fsconsts \<Rightarrow> image \<Rightarrow> superblock \<Rightarrow> dinode \<Rightarrow> nat list \<Rightarrow> bool" where
  "ec5_direct K img sb nd [] = False"
| "ec5_direct K img sb nd (i # is) =
     (if ec5_addr K img sb (addrs nd i) then True else ec5_direct K img sb nd is)"

fun ec5_indirect :: "fsconsts \<Rightarrow> image \<Rightarrow> superblock \<Rightarrow> u32 \<Rightarrow> nat list \<Rightarrow> bool" where
  "ec5_indirect K img sb a [] = False"
| "ec5_indirect K img sb a (i # is) =
     (if ec5_addr K img sb (ind_at K img a i) then True else ec5_indirect K img sb a is)"

definition error_check_5 :: "fsconsts \<Rightarrow> image \<Rightarrow> superblock \<Rightarrow> dinode \<Rightarrow> int" where
  "error_check_5 K img sb nd =
     (if ec5_direct K img sb nd [0..<NDIRECT + 1] then 1
      else if addrs nd NDIRECT \<noteq> 0
      then (if ec5_indirect K img sb (addrs nd NDIRECT) [0..<NINDIRECT K] then 1 else 0)
      else 0)"

subsection \<open>Check 6: the sweep over the bitmap\<close>

text \<open>
  The block usage table \<^verbatim>\<open>in_use\<close> is an array of \<^verbatim>\<open>sblock.size\<close> numbers, indexed by block
  number. The model takes it as a function on all 32-bit block numbers, zero outside the
  array.

  The eight bits of one byte: bit \<open>offset\<close> is tested against \<^verbatim>\<open>in_use[cnt]\<close>, and
  \<^verbatim>\<open>cnt\<close> goes up by one with every bit.
\<close>

fun ec6_bits :: "8 word \<Rightarrow> (u32 \<Rightarrow> u32) \<Rightarrow> u32 \<Rightarrow> nat list \<Rightarrow> bool" where
  "ec6_bits bits in_use cnt [] = False"
| "ec6_bits bits in_use cnt (offset # os) =
     (if drop_bit offset (uint bits) mod 2 \<noteq> 0
      then (if in_use cnt = 0 then True
            else ec6_bits bits in_use (cnt + 1) os)
      else ec6_bits bits in_use (cnt + 1) os)"

text \<open>
  The loop over the bytes: \<open>i\<close> is the loop variable (a \<^verbatim>\<open>uint\<close>, stepped by 8, so that it
  can wrap when \<^verbatim>\<open>sblock.size\<close> is within 8 of \<open>2 ^ 32\<close>), \<open>pos\<close> the file position of the
  next byte, \<open>cnt\<close> the block number the next bit is taken to stand for.
\<close>

partial_function (option) ec6_loop ::
  "image \<Rightarrow> superblock \<Rightarrow> (u32 \<Rightarrow> u32) \<Rightarrow> u32 \<Rightarrow> nat \<Rightarrow> u32 \<Rightarrow> int option" where
  "ec6_loop img sb in_use i pos cnt =
     (if i < size_sb sb
      then (if ec6_bits (rd_uchar img pos) in_use cnt [0..<8] then Some 1
            else ec6_loop img sb in_use (i + 8) (pos + 1) (cnt + 8))
      else Some 0)"

declare ec6_loop.simps [code]

definition error_check_6 ::
  "fsconsts \<Rightarrow> image \<Rightarrow> superblock \<Rightarrow> (u32 \<Rightarrow> u32) \<Rightarrow> int option" where
  "error_check_6 K img sb in_use =
     ec6_loop img sb in_use (bmapstart sb + 1)
       (unat (bmapstart sb * of_nat (BSIZE K) + size_sb sb div 8 - nblocks sb div 8))
       (bmapstart sb + 1)"

subsection \<open>Checks 7 and 8: no block is used twice\<close>

fun ec7_loop :: "dinode \<Rightarrow> (u32 \<Rightarrow> u32) \<Rightarrow> nat list \<Rightarrow> int \<times> (u32 \<Rightarrow> u32)" where
  "ec7_loop nd in_use [] = (0, in_use)"
| "ec7_loop nd in_use (i # is) =
     (if addrs nd i \<noteq> 0
      then (if in_use (addrs nd i) \<noteq> 0 then (1, in_use)
            else ec7_loop nd (in_use(addrs nd i := 1)) is)
      else ec7_loop nd in_use is)"

definition error_check_7 :: "dinode \<Rightarrow> (u32 \<Rightarrow> u32) \<Rightarrow> int \<times> (u32 \<Rightarrow> u32)" where
  "error_check_7 nd in_use = ec7_loop nd in_use [0..<NDIRECT + 1]"

fun ec8_loop ::
  "fsconsts \<Rightarrow> image \<Rightarrow> u32 \<Rightarrow> (u32 \<Rightarrow> u32) \<Rightarrow> nat list \<Rightarrow> int \<times> (u32 \<Rightarrow> u32)" where
  "ec8_loop K img a in_use [] = (0, in_use)"
| "ec8_loop K img a in_use (i # is) =
     (if ind_at K img a i \<noteq> 0
      then (if in_use (ind_at K img a i) = 1 then (1, in_use)
            else ec8_loop K img a (in_use(ind_at K img a i := 1)) is)
      else ec8_loop K img a in_use is)"

definition error_check_8 ::
  "fsconsts \<Rightarrow> image \<Rightarrow> dinode \<Rightarrow> (u32 \<Rightarrow> u32) \<Rightarrow> int \<times> (u32 \<Rightarrow> u32)" where
  "error_check_8 K img nd in_use =
     (if addrs nd NDIRECT \<noteq> 0
      then ec8_loop K img (addrs nd NDIRECT) in_use [0..<NINDIRECT K]
      else (0, in_use))"

subsection \<open>Check 9: an inode in use is found in a directory\<close>

text \<open>The scan of the indirect block of a candidate directory: of every block listed there,
  the first entry record is read.\<close>

fun ec9_indirect :: "fsconsts \<Rightarrow> image \<Rightarrow> u32 \<Rightarrow> u32 \<Rightarrow> nat list \<Rightarrow> bool" where
  "ec9_indirect K img inode_num a [] = False"
| "ec9_indirect K img inode_num a (j # js) =
     (if ind_at K img a j \<noteq> 0
      then (if inum (entry_at K img (ind_at K img a j) 0) = inode_num then True
            else ec9_indirect K img inode_num a js)
      else ec9_indirect K img inode_num a js)"

text \<open>
  The two nested loops share the variable \<open>i\<close>: the loop over the direct slots of a candidate
  directory is written \<^verbatim>\<open>for(uint j = 0; j < NDIRECT; ++i)\<close>, so that it steps \<open>i\<close> and
  leaves \<open>j\<close> as it is. A position of the control is either the head of the outer loop, with
  the value of \<open>i\<close>, or the head of the inner loop, with \<open>i\<close>, \<open>j\<close> and the inode
  \<^verbatim>\<open>tmp_inode\<close> read last. The loops need not end: the result \<open>None\<close> stands for a run that
  never returns.
\<close>

datatype ec9_pos = Outer u32 | Direct u32 nat dinode

partial_function (option) ec9_loop ::
  "fsconsts \<Rightarrow> image \<Rightarrow> superblock \<Rightarrow> u32 \<Rightarrow> ec9_pos \<Rightarrow> int option" where
  "ec9_loop K img sb inode_num pos =
     (case pos of
        Outer i \<Rightarrow>
          if i < ninodes sb
          then (if type (rd_dinode img (inode_off K sb (unat i))) = T_DIR K
                   \<and> inode_num \<noteq> i \<and> i \<noteq> 1
                then ec9_loop K img sb inode_num
                       (Direct i 0 (rd_dinode img (inode_off K sb (unat i))))
                else ec9_loop K img sb inode_num (Outer (i + 1)))
          else Some 1
      | Direct i j tmp_inode \<Rightarrow>
          if j < NDIRECT
          then (if addrs tmp_inode j \<noteq> 0
                then (if inum (entry_at K img (addrs tmp_inode j) 0) = inode_num
                      then Some 0
                      else ec9_loop K img sb inode_num (Direct (i + 1) j tmp_inode))
                else ec9_loop K img sb inode_num (Direct (i + 1) j tmp_inode))
          else if addrs tmp_inode NDIRECT \<noteq> 0
               then (if ec9_indirect K img inode_num (addrs tmp_inode NDIRECT)
                          [0..<NINDIRECT K]
                     then Some 0
                     else ec9_loop K img sb inode_num (Outer (i + 1)))
               else ec9_loop K img sb inode_num (Outer (i + 1)))"

declare ec9_loop.simps [code]

definition error_check_9 :: "fsconsts \<Rightarrow> image \<Rightarrow> superblock \<Rightarrow> u32 \<Rightarrow> int option" where
  "error_check_9 K img sb inode_num = ec9_loop K img sb inode_num (Outer 0)"

subsection \<open>Check 10: the entries of a directory refer to inodes in use\<close>

text \<open>The test applied to an entry record: the inode it names is read and its type looked
  at.\<close>

definition ec10_entry :: "fsconsts \<Rightarrow> image \<Rightarrow> superblock \<Rightarrow> dirent \<Rightarrow> bool" where
  "ec10_entry K img sb dir_entry =
     (if inum dir_entry \<noteq> 0
      then type (rd_dinode img (inode_off K sb (unat (inum dir_entry)))) = 0
      else False)"

fun ec10_block :: "fsconsts \<Rightarrow> image \<Rightarrow> superblock \<Rightarrow> u32 \<Rightarrow> nat list \<Rightarrow> bool" where
  "ec10_block K img sb a [] = False"
| "ec10_block K img sb a (j # js) =
     (if ec10_entry K img sb (entry_at K img a j) then True else ec10_block K img sb a js)"

fun ec10_direct :: "fsconsts \<Rightarrow> image \<Rightarrow> superblock \<Rightarrow> dinode \<Rightarrow> nat list \<Rightarrow> bool" where
  "ec10_direct K img sb nd [] = False"
| "ec10_direct K img sb nd (i # is) =
     (if addrs nd i \<noteq> 0
      then (if ec10_block K img sb (addrs nd i) [0..<DPB K] then True
            else ec10_direct K img sb nd is)
      else ec10_direct K img sb nd is)"

text \<open>In the indirect block every slot is followed, the zero ones as well.\<close>

fun ec10_indirect :: "fsconsts \<Rightarrow> image \<Rightarrow> superblock \<Rightarrow> u32 \<Rightarrow> nat list \<Rightarrow> bool" where
  "ec10_indirect K img sb a [] = False"
| "ec10_indirect K img sb a (i # is) =
     (if ec10_block K img sb (ind_at K img a i) [0..<DPB K] then True
      else ec10_indirect K img sb a is)"

definition error_check_10 :: "fsconsts \<Rightarrow> image \<Rightarrow> superblock \<Rightarrow> dinode \<Rightarrow> int" where
  "error_check_10 K img sb nd =
     (if ec10_direct K img sb nd [0..<NDIRECT] then 1
      else if addrs nd NDIRECT \<noteq> 0
      then (if ec10_indirect K img sb (addrs nd NDIRECT) [0..<NINDIRECT K] then 1 else 0)
      else 0)"

subsection \<open>Checks 11 and 12: counting the references to an inode\<close>

text \<open>
  Both checks run the same loops (the text of the two functions is the same up to the final
  comparison): over all inodes, and for each directory among them over the entry records of
  its direct blocks and of the blocks listed in its indirect block, counting in the \<^verbatim>\<open>uint\<close>
  \<open>cnt\<close> the records whose \<open>inum\<close> is the given inode number.
\<close>

fun cnt_block :: "fsconsts \<Rightarrow> image \<Rightarrow> u32 \<Rightarrow> u32 \<Rightarrow> nat list \<Rightarrow> u32 \<Rightarrow> u32" where
  "cnt_block K img inode_num a [] cnt = cnt"
| "cnt_block K img inode_num a (dir_cnt # ds) cnt =
     cnt_block K img inode_num a ds
       (if inum (entry_at K img a dir_cnt) = inode_num then cnt + 1 else cnt)"

fun cnt_direct :: "fsconsts \<Rightarrow> image \<Rightarrow> u32 \<Rightarrow> dinode \<Rightarrow> nat list \<Rightarrow> u32 \<Rightarrow> u32" where
  "cnt_direct K img inode_num tmp_inode [] cnt = cnt"
| "cnt_direct K img inode_num tmp_inode (j # js) cnt =
     cnt_direct K img inode_num tmp_inode js
       (if addrs tmp_inode j \<noteq> 0
        then cnt_block K img inode_num (addrs tmp_inode j) [0..<DPB K] cnt
        else cnt)"

fun cnt_indirect :: "fsconsts \<Rightarrow> image \<Rightarrow> u32 \<Rightarrow> u32 \<Rightarrow> nat list \<Rightarrow> u32 \<Rightarrow> u32" where
  "cnt_indirect K img inode_num a [] cnt = cnt"
| "cnt_indirect K img inode_num a (j # js) cnt =
     cnt_indirect K img inode_num a js
       (if ind_at K img a j \<noteq> 0
        then cnt_block K img inode_num (ind_at K img a j) [0..<DPB K] cnt
        else cnt)"

text \<open>What one inode adds to the counter: nothing unless it is a directory.\<close>

definition cnt_inode :: "fsconsts \<Rightarrow> image \<Rightarrow> u32 \<Rightarrow> dinode \<Rightarrow> u32 \<Rightarrow> u32" where
  "cnt_inode K img inode_num tmp_inode cnt =
     (if type tmp_inode = T_DIR K
      then (if addrs tmp_inode NDIRECT \<noteq> 0
            then cnt_indirect K img inode_num (addrs tmp_inode NDIRECT) [0..<NINDIRECT K]
                   (cnt_direct K img inode_num tmp_inode [0..<NDIRECT] cnt)
            else cnt_direct K img inode_num tmp_inode [0..<NDIRECT] cnt)
      else cnt)"

fun cnt_inodes ::
  "fsconsts \<Rightarrow> image \<Rightarrow> superblock \<Rightarrow> u32 \<Rightarrow> nat list \<Rightarrow> u32 \<Rightarrow> u32" where
  "cnt_inodes K img sb inode_num [] cnt = cnt"
| "cnt_inodes K img sb inode_num (i # is) cnt =
     cnt_inodes K img sb inode_num is
       (cnt_inode K img inode_num (rd_dinode img (inode_off K sb i)) cnt)"

definition error_check_11 ::
  "fsconsts \<Rightarrow> image \<Rightarrow> superblock \<Rightarrow> dinode \<Rightarrow> u32 \<Rightarrow> int" where
  "error_check_11 K img sb nd inode_num =
     (if cnt_inodes K img sb inode_num [0..<unat (ninodes sb)] 0 \<noteq> nlink nd then 1 else 0)"

definition error_check_12 ::
  "fsconsts \<Rightarrow> image \<Rightarrow> superblock \<Rightarrow> dinode \<Rightarrow> u32 \<Rightarrow> int" where
  "error_check_12 K img sb nd inode_num =
     (if cnt_inodes K img sb inode_num [0..<unat (ninodes sb)] 0 \<noteq> 1 then 1 else 0)"

section \<open>The driver\<close>

text \<open>
  A failed check prints its line on the standard error stream, closes the image and leaves
  with \<^verbatim>\<open>exit(1)\<close>: the outcome of a run is the text printed and the exit status. The
  line feed that ends every message is written \<open>CHR 0x0A\<close>.
\<close>

type_synonym outcome = "string \<times> int"

definition die :: "string \<Rightarrow> outcome" where
  "die msg = (msg @ [CHR 0x0A], 1)"

text \<open>
  The checks of a directory inode other than the root: check 9, then check 12. The result is
  \<open>None\<close> when check 9 does not return, \<open>Some (Some out)\<close> when the run ends with the
  outcome \<open>out\<close>, and \<open>Some None\<close> when the run goes on.
\<close>

definition nonroot_checks ::
  "fsconsts \<Rightarrow> image \<Rightarrow> superblock \<Rightarrow> dinode \<Rightarrow> u32 \<Rightarrow> outcome option option" where
  "nonroot_checks K img sb cur_inode inode_num =
     (case error_check_9 K img sb inode_num of
        None \<Rightarrow> None
      | Some r9 \<Rightarrow>
          if r9 \<noteq> 0
          then Some (Some (die ''ERROR: inode marked use but not found in a directory''))
          else if error_check_12 K img sb cur_inode inode_num \<noteq> 0
          then Some (Some (die ''ERROR: directory appears more than once in file system''))
          else Some None)"

text \<open>The checks of a directory inode: check 4, the two checks above unless the inode is
  the root, then check 10.\<close>

definition dir_checks ::
  "fsconsts \<Rightarrow> image \<Rightarrow> superblock \<Rightarrow> dinode \<Rightarrow> u32 \<Rightarrow> outcome option option" where
  "dir_checks K img sb cur_inode inode_num =
     (if error_check_4 K img cur_inode inode_num \<noteq> 0
      then Some (Some (die ''ERROR: directory not properly formatted''))
      else (case (if inode_num \<noteq> 1 then nonroot_checks K img sb cur_inode inode_num
                  else Some None) of
              None \<Rightarrow> None
            | Some (Some out) \<Rightarrow> Some (Some out)
            | Some None \<Rightarrow>
                if error_check_10 K img sb cur_inode \<noteq> 0
                then Some (Some (die ''ERROR: inode referred to in directory but marked free''))
                else Some None))"

definition file_checks ::
  "fsconsts \<Rightarrow> image \<Rightarrow> superblock \<Rightarrow> dinode \<Rightarrow> u32 \<Rightarrow> outcome option" where
  "file_checks K img sb cur_inode inode_num =
     (if error_check_11 K img sb cur_inode inode_num \<noteq> 0
      then Some (die ''ERROR: bad reference count for file'')
      else None)"

text \<open>
  The checks of the loop body on the inode \<open>cur_inode\<close> just read, for the inode number
  \<open>inode_num\<close> and the block usage table \<open>in_use\<close>: \<open>None\<close> when the body does not
  return, \<open>Some (Inl out)\<close> when the run ends there with the outcome \<open>out\<close>,
  \<open>Some (Inr in_use')\<close> when the loop goes on with the table \<open>in_use'\<close>.
\<close>

definition check_inode ::
  "fsconsts \<Rightarrow> image \<Rightarrow> superblock \<Rightarrow> dinode \<Rightarrow> u32 \<Rightarrow> (u32 \<Rightarrow> u32)
     \<Rightarrow> (outcome + (u32 \<Rightarrow> u32)) option" where
  "check_inode K img sb cur_inode inode_num in_use =
     (if error_check_1 K cur_inode \<noteq> 0 then Some (Inl (die ''ERROR: bad inode''))
      else if type cur_inode \<noteq> 0
      then (if error_check_2 K img sb cur_inode \<noteq> 0
            then Some (Inl (die ''ERROR: bad indirect address in inode''))
            else if error_check_5 K img sb cur_inode \<noteq> 0
            then Some (Inl (die ''ERROR: address used by inode but marked free in bitmap''))
            else (case error_check_7 cur_inode in_use of
              (r7, in_use7) \<Rightarrow>
                if r7 \<noteq> 0
                then Some (Inl (die ''ERROR: direct address used more than once''))
                else (case error_check_8 K img cur_inode in_use7 of
                  (r8, in_use8) \<Rightarrow>
                    if r8 \<noteq> 0
                    then Some (Inl (die ''ERROR: indirect address used more than once''))
                    else (case (if type cur_inode = T_DIR K
                                then dir_checks K img sb cur_inode inode_num
                                else Some None) of
                            None \<Rightarrow> None
                          | Some (Some out) \<Rightarrow> Some (Inl out)
                          | Some None \<Rightarrow>
                              (case (if type cur_inode = T_FILE K
                                     then file_checks K img sb cur_inode inode_num
                                     else None) of
                                 Some out \<Rightarrow> Some (Inl out)
                               | None \<Rightarrow> Some (Inr in_use8))))))
      else Some (Inr in_use))"

text \<open>The body of the loop: the inode is read, then checked.\<close>

definition scan_inode ::
  "fsconsts \<Rightarrow> image \<Rightarrow> superblock \<Rightarrow> nat \<Rightarrow> (u32 \<Rightarrow> u32)
     \<Rightarrow> (outcome + (u32 \<Rightarrow> u32)) option" where
  "scan_inode K img sb inode_num in_use =
     check_inode K img sb (rd_dinode img (inode_off K sb inode_num)) (of_nat inode_num) in_use"

text \<open>The loop over the inode numbers.\<close>

fun scan_inodes ::
  "fsconsts \<Rightarrow> image \<Rightarrow> superblock \<Rightarrow> nat list \<Rightarrow> (u32 \<Rightarrow> u32)
     \<Rightarrow> (outcome + (u32 \<Rightarrow> u32)) option" where
  "scan_inodes K img sb [] in_use = Some (Inr in_use)"
| "scan_inodes K img sb (inode_num # ns) in_use =
     (case scan_inode K img sb inode_num in_use of
        None \<Rightarrow> None
      | Some (Inl out) \<Rightarrow> Some (Inl out)
      | Some (Inr in_use') \<Rightarrow> scan_inodes K img sb ns in_use')"

text \<open>
  \<^verbatim>\<open>main\<close>, from the point where the image is open: the superblock is read from block 1,
  the table is cleared, check 3 runs, then the loop over the inodes, then check 6. The result
  is \<open>None\<close> for a run that does not end.
\<close>

definition main :: "fsconsts \<Rightarrow> image \<Rightarrow> outcome option" where
  "main K img =
     (let sblock = rd_superblock img (BSIZE K * 1);
          in_use = (\<lambda>_. 0)
      in if error_check_3 K img sblock \<noteq> 0
         then Some (die ''ERROR: root directory does not exist'')
         else (case scan_inodes K img sblock [0..<unat (ninodes sblock)] in_use of
                 None \<Rightarrow> None
               | Some (Inl out) \<Rightarrow> Some out
               | Some (Inr in_use') \<Rightarrow>
                   (case error_check_6 K img sblock in_use' of
                      None \<Rightarrow> None
                    | Some r6 \<Rightarrow>
                        if r6 \<noteq> 0
                        then Some (die ''ERROR: bitmap marks block in use but it is not in use'')
                        else Some ([], 0))))"

section \<open>Notions used to state the properties\<close>

text \<open>
  The block numbers an inode refers to: its \<^verbatim>\<open>NDIRECT\<close> direct pointers, its indirect pointer,
  and, when there is an indirect block, the \<^verbatim>\<open>NINDIRECT\<close> numbers stored in it.
\<close>

definition inode_refs :: "fsconsts \<Rightarrow> image \<Rightarrow> dinode \<Rightarrow> u32 set" where
  "inode_refs K img nd =
     addrs nd ` {0..<NDIRECT + 1}
       \<union> (if addrs nd NDIRECT \<noteq> 0
          then ind_at K img (addrs nd NDIRECT) ` {0..<NINDIRECT K} else {})"

text \<open>The end of the bitmap as the specification writes it, in unbounded arithmetic:
  \<open>bitmap_start + ceil (total_blocks / (8 * block_size))\<close>.\<close>

definition bitmap_end_spec :: "fsconsts \<Rightarrow> superblock \<Rightarrow> nat" where
  "bitmap_end_spec K sb =
     unat (bmapstart sb) + (unat (size_sb sb) + 8 * BSIZE K - 1) div (8 * BSIZE K)"

text \<open>The data blocks of a directory inode: the non-zero direct pointers in array order,
  and \<open>dir_blocks\<close> adds the non-zero numbers listed in the indirect block, if there is one.\<close>

definition direct_blocks :: "dinode \<Rightarrow> u32 list" where
  "direct_blocks nd = filter (\<lambda>a. a \<noteq> 0) (map (addrs nd) [0..<NDIRECT])"

definition dir_blocks :: "fsconsts \<Rightarrow> image \<Rightarrow> dinode \<Rightarrow> u32 list" where
  "dir_blocks K img nd =
     direct_blocks nd
       @ (if addrs nd NDIRECT \<noteq> 0
          then filter (\<lambda>a. a \<noteq> 0) (map (ind_at K img (addrs nd NDIRECT)) [0..<NINDIRECT K])
          else [])"

text \<open>The entry records of a list of blocks, block after block.\<close>

definition entries_of :: "fsconsts \<Rightarrow> image \<Rightarrow> u32 list \<Rightarrow> dirent list" where
  "entries_of K img bs = concat (map (\<lambda>a. map (entry_at K img a) [0..<DPB K]) bs)"

text \<open>
  The number of entry records in the whole file system that carry the inode number \<open>n\<close>:
  every record of every data block, direct or indirect, of every inode of type directory.
\<close>

definition dir_refs :: "fsconsts \<Rightarrow> image \<Rightarrow> superblock \<Rightarrow> u32 \<Rightarrow> nat" where
  "dir_refs K img sb n =
     (\<Sum>i\<leftarrow>[0..<unat (ninodes sb)].
        (let nd = rd_dinode img (inode_off K sb i)
         in if type nd = T_DIR K
            then length (filter (\<lambda>e. inum e = n) (entries_of K img (dir_blocks K img nd)))
            else 0))"

text \<open>An entry is named \<open>s\<close> when \<^verbatim>\<open>strncmp\<close> over the width of the name field says so.\<close>

definition named :: "fsconsts \<Rightarrow> dirent \<Rightarrow> string \<Rightarrow> bool" where
  "named K e s = (strncmp (name e) s (DIRSIZ K) = 0)"

text \<open>
  The matches check 4 is about, counted over a list of entry records: the records named
  \<open>.\<close> that carry the inode number \<open>n\<close>, plus the records named \<open>..\<close> whatever they
  carry.
\<close>

definition shape_matches :: "fsconsts \<Rightarrow> u32 \<Rightarrow> dirent list \<Rightarrow> nat" where
  "shape_matches K n es =
     length (filter (\<lambda>e. named K e ''.'' \<and> inum e = n) es)
       + length (filter (\<lambda>e. named K e ''..'') es)"

text \<open>
  The loop over the inode numbers below \<open>d\<close>, from the cleared table, on the superblock of
  the image.
\<close>

definition scan_upto ::
  "fsconsts \<Rightarrow> image \<Rightarrow> nat \<Rightarrow> (outcome + (u32 \<Rightarrow> u32)) option" where
  "scan_upto K img d =
     scan_inodes K img (rd_superblock img (BSIZE K)) [0..<d] (\<lambda>_. 0)"

text \<open>
  The run gets to the inode number \<open>d\<close>: check 3 has passed, \<open>d\<close> is an inode number of
  the image, and the loop body has returned for every inode number below \<open>d\<close>. The block
  usage table at that point is \<open>table_at K img d\<close>.
\<close>

definition reaches :: "fsconsts \<Rightarrow> image \<Rightarrow> nat \<Rightarrow> bool" where
  "reaches K img d =
     (error_check_3 K img (rd_superblock img (BSIZE K)) = 0
      \<and> d < unat (ninodes (rd_superblock img (BSIZE K)))
      \<and> (case scan_upto K img d of Some (Inr in_use) \<Rightarrow> True | _ \<Rightarrow> False))"

definition table_at :: "fsconsts \<Rightarrow> image \<Rightarrow> nat \<Rightarrow> u32 \<Rightarrow> u32" where
  "table_at K img d =
     (case scan_upto K img d of Some (Inr in_use) \<Rightarrow> in_use | _ \<Rightarrow> (\<lambda>_. 0))"

text \<open>The inode \<open>nd\<close> is in use, of a valid type, and passes the checks 2, 5, 7 and 8
  on the block usage table \<open>in_use\<close>.\<close>

definition passes_block_checks ::
  "fsconsts \<Rightarrow> image \<Rightarrow> superblock \<Rightarrow> dinode \<Rightarrow> (u32 \<Rightarrow> u32) \<Rightarrow> bool" where
  "passes_block_checks K img sb nd in_use =
     (error_check_1 K nd = 0 \<and> type nd \<noteq> 0
      \<and> error_check_2 K img sb nd = 0 \<and> error_check_5 K img sb nd = 0
      \<and> fst (error_check_7 nd in_use) = 0
      \<and> fst (error_check_8 K img nd (snd (error_check_7 nd in_use))) = 0)"

text \<open>The inode number \<open>i\<close> is a candidate parent for \<open>d\<close> in check 9: a directory
  other than \<open>d\<close> and other than the root.\<close>

definition ec9_candidate :: "fsconsts \<Rightarrow> image \<Rightarrow> superblock \<Rightarrow> u32 \<Rightarrow> nat \<Rightarrow> bool" where
  "ec9_candidate K img sb d i =
     (type (rd_dinode img (inode_off K sb i)) = T_DIR K \<and> d \<noteq> of_nat i \<and> i \<noteq> 1)"

text \<open>The first record of the block in the first direct slot of \<open>nd\<close> carries \<open>d\<close>.\<close>

definition ec9_match :: "fsconsts \<Rightarrow> image \<Rightarrow> u32 \<Rightarrow> dinode \<Rightarrow> bool" where
  "ec9_match K img d nd = (addrs nd 0 \<noteq> 0 \<and> inum (entry_at K img (addrs nd 0) 0) = d)"

text \<open>What check 9 comes to, as the proofs below show: the inode numbers are gone through
  up to the first candidate, and that one alone decides.\<close>

fun ec9_first :: "fsconsts \<Rightarrow> image \<Rightarrow> superblock \<Rightarrow> u32 \<Rightarrow> nat list \<Rightarrow> int option" where
  "ec9_first K img sb d [] = Some 1"
| "ec9_first K img sb d (i # is) =
     (if ec9_candidate K img sb d i
      then (if ec9_match K img d (rd_dinode img (inode_off K sb i)) then Some 0 else None)
      else ec9_first K img sb d is)"

text \<open>The number of records with the inode number \<open>n\<close> in a list of entry records.\<close>

definition refs_in :: "u32 \<Rightarrow> dirent list \<Rightarrow> nat" where
  "refs_in n es = length (filter (\<lambda>e. inum e = n) es)"

text \<open>The bit of block \<open>b\<close> in the bitmap: bit \<open>b % 8\<close> of byte \<open>b / 8\<close>.\<close>

definition bitmap_bit :: "fsconsts \<Rightarrow> image \<Rightarrow> superblock \<Rightarrow> nat \<Rightarrow> bool" where
  "bitmap_bit K img sb b = bit (rd_uchar img (blk_off K (bmapstart sb) + b div 8)) (b mod 8)"

section \<open>Example images\<close>

text \<open>
  The constants of the teaching kernel the checker is written for: blocks of 512 bytes,
  names of 14 bytes, inodes of 64 bytes and entry records of 16 bytes.
\<close>

definition xv6 :: fsconsts where
  "xv6 = \<lparr>BSIZE = 512, DIRSIZ = 14, T_DIR = 1, T_FILE = 2, T_DEV = 3,
           sz_dinode = 64, sz_dirent = 16\<rparr>"

text \<open>
  A small image of 16 blocks: the superblock in block 1, eight inodes in block 2, the bitmap
  in block 3 and the data blocks 4 to 15. It is given by its inodes (by number), the entry
  records and the block numbers stored in its blocks (by block number and index), and the
  bytes of its bitmap.
\<close>

definition sb16 :: superblock where
  "sb16 = \<lparr>size_sb = 16, nblocks = 12, ninodes = 8, inodestart = 2, bmapstart = 3\<rparr>"

definition image16 ::
  "(nat \<Rightarrow> dinode) \<Rightarrow> (nat \<Rightarrow> nat \<Rightarrow> dirent) \<Rightarrow> (nat \<Rightarrow> nat \<Rightarrow> u32) \<Rightarrow> (nat \<Rightarrow> 8 word)
     \<Rightarrow> image" where
  "image16 inodes entries ptrs bitmap =
     \<lparr>rd_superblock = (\<lambda>_. sb16),
      rd_dinode = (\<lambda>off. inodes ((off - 1024) div 64)),
      rd_dirent = (\<lambda>off. entries (off div 512) (off mod 512 div 16)),
      rd_uint = (\<lambda>off. if off div 512 = 3
                   then ucast (bitmap (off - 1536))
                        OR push_bit 8 (ucast (bitmap (off - 1535)))
                        OR push_bit 16 (ucast (bitmap (off - 1534)))
                        OR push_bit 24 (ucast (bitmap (off - 1533)))
                   else ptrs (off div 512) (off mod 512 div 4)),
      rd_uchar = (\<lambda>off. bitmap (off - 1536))\<rparr>"

definition free_inode :: dinode where
  "free_inode = \<lparr>type = 0, nlink = 0, size_dn = 0, addrs = (\<lambda>_. 0)\<rparr>"

definition dir_inode :: "u32 \<Rightarrow> dinode" where
  "dir_inode b =
     \<lparr>type = 1, nlink = 1, size_dn = 512, addrs = (\<lambda>i. if i = 0 then b else 0)\<rparr>"

definition file_inode :: "u32 \<Rightarrow> u32 \<Rightarrow> dinode" where
  "file_inode n b =
     \<lparr>type = 2, nlink = n, size_dn = 512, addrs = (\<lambda>i. if i = 0 then b else 0)\<rparr>"

text \<open>An entry record; the bytes of the name after the given ones are NUL.\<close>

definition entry :: "u32 \<Rightarrow> string \<Rightarrow> dirent" where
  "entry n s = \<lparr>inum = n, name = s\<rparr>"

definition no_ptrs :: "nat \<Rightarrow> nat \<Rightarrow> u32" where
  "no_ptrs b k = 0"

definition bitmap_byte0 :: "8 word \<Rightarrow> nat \<Rightarrow> 8 word" where
  "bitmap_byte0 b k = (if k = 0 then b else 0)"

text \<open>A consistent image: the root directory in block 4 with one file \<open>a\<close>, whose data
  is block 5.\<close>

definition root_entries :: "nat \<Rightarrow> nat \<Rightarrow> dirent" where
  "root_entries b k =
     (if b = 4 \<and> k = 0 then entry 1 ''.''
      else if b = 4 \<and> k = 1 then entry 1 ''..''
      else if b = 4 \<and> k = 2 then entry 2 ''a''
      else entry 0 [])"

definition img_ok :: image where
  "img_ok =
     image16 (\<lambda>i. if i = 1 then dir_inode 4 else if i = 2 then file_inode 1 5 else free_inode)
       root_entries no_ptrs (bitmap_byte0 63)"

text \<open>The file \<open>a\<close> points into the inode block.\<close>

definition img_badaddr :: image where
  "img_badaddr =
     image16 (\<lambda>i. if i = 1 then dir_inode 4 else if i = 2 then file_inode 1 2 else free_inode)
       root_entries no_ptrs (bitmap_byte0 63)"

text \<open>Inode 1 is a file.\<close>

definition img_noroot :: image where
  "img_noroot =
     image16 (\<lambda>i. if i = 1 then file_inode 1 4 else free_inode)
       root_entries no_ptrs (bitmap_byte0 31)"

text \<open>A tree: the root and two directories \<open>d\<close> and \<open>e\<close> in it.\<close>

definition tree_entries :: "nat \<Rightarrow> nat \<Rightarrow> dirent" where
  "tree_entries b k =
     (if b = 4 \<and> k = 0 then entry 1 ''.''
      else if b = 4 \<and> k = 1 then entry 1 ''..''
      else if b = 4 \<and> k = 2 then entry 2 ''d''
      else if b = 4 \<and> k = 3 then entry 3 ''e''
      else if b = 5 \<and> k = 0 then entry 2 ''.''
      else if b = 5 \<and> k = 1 then entry 1 ''..''
      else if b = 6 \<and> k = 0 then entry 3 ''.''
      else if b = 6 \<and> k = 1 then entry 1 ''..''
      else entry 0 [])"

definition img_tree :: image where
  "img_tree =
     image16 (\<lambda>i. if i = 1 then dir_inode 4 else if i = 2 then dir_inode 5
                   else if i = 3 then dir_inode 6 else free_inode)
       tree_entries no_ptrs (bitmap_byte0 127)"

text \<open>The same inodes; directory 2 has no entry for itself, so that the entry \<open>d\<close> of the
  root is the only record in the image that carries the inode number 2.\<close>

definition lone_entries :: "nat \<Rightarrow> nat \<Rightarrow> dirent" where
  "lone_entries b k =
     (if b = 4 \<and> k = 0 then entry 1 ''.''
      else if b = 4 \<and> k = 1 then entry 1 ''..''
      else if b = 4 \<and> k = 2 then entry 2 ''d''
      else if b = 4 \<and> k = 3 then entry 3 ''e''
      else if b = 5 \<and> k = 0 then entry 1 ''..''
      else if b = 5 \<and> k = 1 then entry 1 ''..''
      else if b = 6 \<and> k = 0 then entry 3 ''.''
      else if b = 6 \<and> k = 1 then entry 1 ''..''
      else entry 0 [])"

definition img_lone :: image where
  "img_lone =
     image16 (\<lambda>i. if i = 1 then dir_inode 4 else if i = 2 then dir_inode 5
                   else if i = 3 then dir_inode 6 else free_inode)
       lone_entries no_ptrs (bitmap_byte0 127)"

text \<open>The same inodes again; here the first record of the block of directory 3 carries
  the inode number 2.\<close>

definition found_entries :: "nat \<Rightarrow> nat \<Rightarrow> dirent" where
  "found_entries b k =
     (if b = 4 \<and> k = 0 then entry 1 ''.''
      else if b = 4 \<and> k = 1 then entry 1 ''..''
      else if b = 4 \<and> k = 2 then entry 2 ''d''
      else if b = 4 \<and> k = 3 then entry 3 ''e''
      else if b = 5 \<and> k = 0 then entry 2 ''.''
      else if b = 5 \<and> k = 1 then entry 1 ''..''
      else if b = 6 \<and> k = 0 then entry 2 ''x''
      else if b = 6 \<and> k = 1 then entry 3 ''.''
      else if b = 6 \<and> k = 2 then entry 1 ''..''
      else entry 0 [])"

definition img_found :: image where
  "img_found =
     image16 (\<lambda>i. if i = 1 then dir_inode 4 else if i = 2 then dir_inode 5
                   else if i = 3 then dir_inode 6 else free_inode)
       found_entries no_ptrs (bitmap_byte0 127)"

text \<open>The consistent image, except that the bitmap also marks block 6, which no inode
  refers to.\<close>

definition img_stale :: image where
  "img_stale =
     image16 (\<lambda>i. if i = 1 then dir_inode 4 else if i = 2 then file_inode 1 5 else free_inode)
       root_entries no_ptrs (bitmap_byte0 127)"

text \<open>A consistent image whose file has its data in block 9: the bitmap marks the blocks
  0 to 4 and 9.\<close>

definition bitmap_far :: "nat \<Rightarrow> 8 word" where
  "bitmap_far k = (if k = 0 then 31 else if k = 1 then 2 else 0)"

definition img_far :: image where
  "img_far =
     image16 (\<lambda>i. if i = 1 then dir_inode 4 else if i = 2 then file_inode 1 9 else free_inode)
       root_entries no_ptrs bitmap_far"

text \<open>Directory 2 has an entry for itself and none for its parent.\<close>

definition nodotdot_entries :: "nat \<Rightarrow> nat \<Rightarrow> dirent" where
  "nodotdot_entries b k =
     (if b = 4 \<and> k = 0 then entry 1 ''.''
      else if b = 4 \<and> k = 1 then entry 1 ''..''
      else if b = 4 \<and> k = 2 then entry 2 ''d''
      else if b = 5 \<and> k = 0 then entry 2 ''.''
      else entry 0 [])"

definition img_nodotdot :: image where
  "img_nodotdot =
     image16 (\<lambda>i. if i = 1 then dir_inode 4 else if i = 2 then dir_inode 5 else free_inode)
       nodotdot_entries no_ptrs (bitmap_byte0 63)"

text \<open>Directory 2 has a direct block, 5, with the two entries \<open>.\<close> and \<open>..\<close>, and an
  indirect block, 6, that lists block 7, where there is one more entry \<open>..\<close>.\<close>

definition ind_dir_inode :: dinode where
  "ind_dir_inode =
     \<lparr>type = 1, nlink = 1, size_dn = 6656,
      addrs = (\<lambda>i. if i = 0 then 5 else if i = 12 then 6 else 0)\<rparr>"

definition ind_entries :: "nat \<Rightarrow> nat \<Rightarrow> dirent" where
  "ind_entries b k =
     (if b = 4 \<and> k = 0 then entry 1 ''.''
      else if b = 4 \<and> k = 1 then entry 1 ''..''
      else if b = 4 \<and> k = 2 then entry 2 ''d''
      else if b = 5 \<and> k = 0 then entry 2 ''.''
      else if b = 5 \<and> k = 1 then entry 1 ''..''
      else if b = 7 \<and> k = 0 then entry 1 ''..''
      else entry 0 [])"

definition ind_ptrs :: "nat \<Rightarrow> nat \<Rightarrow> u32" where
  "ind_ptrs b k = (if b = 6 \<and> k = 0 then 7 else 0)"

definition img_ind :: image where
  "img_ind =
     image16 (\<lambda>i. if i = 1 then dir_inode 4 else if i = 2 then ind_dir_inode else free_inode)
       ind_entries ind_ptrs (bitmap_byte0 255)"

text \<open>The file \<open>a\<close> has one entry and the link count 2.\<close>

definition img_nlink :: image where
  "img_nlink =
     image16 (\<lambda>i. if i = 1 then dir_inode 4 else if i = 2 then file_inode 2 5 else free_inode)
       root_entries no_ptrs (bitmap_byte0 63)"

text \<open>Two files with the same data block 5.\<close>

definition shared_entries :: "nat \<Rightarrow> nat \<Rightarrow> dirent" where
  "shared_entries b k =
     (if b = 4 \<and> k = 0 then entry 1 ''.''
      else if b = 4 \<and> k = 1 then entry 1 ''..''
      else if b = 4 \<and> k = 2 then entry 2 ''a''
      else if b = 4 \<and> k = 3 then entry 3 ''b''
      else entry 0 [])"

definition img_shared :: image where
  "img_shared =
     image16 (\<lambda>i. if i = 1 then dir_inode 4 else if i = 2 then file_inode 1 5
                   else if i = 3 then file_inode 1 5 else free_inode)
       shared_entries no_ptrs (bitmap_byte0 63)"

text \<open>The root and one directory \<open>d\<close> in it, each with its entries \<open>.\<close> and
  \<open>..\<close>.\<close>

definition pair_entries :: "nat \<Rightarrow> nat \<Rightarrow> dirent" where
  "pair_entries b k =
     (if b = 4 \<and> k = 0 then entry 1 ''.''
      else if b = 4 \<and> k = 1 then entry 1 ''..''
      else if b = 4 \<and> k = 2 then entry 2 ''d''
      else if b = 5 \<and> k = 0 then entry 2 ''.''
      else if b = 5 \<and> k = 1 then entry 1 ''..''
      else entry 0 [])"

definition img_pair :: image where
  "img_pair =
     image16 (\<lambda>i. if i = 1 then dir_inode 4 else if i = 2 then dir_inode 5 else free_inode)
       pair_entries no_ptrs (bitmap_byte0 63)"

section \<open>Evaluating the examples\<close>

lemma xv6_simps:
  "BSIZE xv6 = 512" "DIRSIZ xv6 = 14" "T_DIR xv6 = 1" "T_FILE xv6 = 2" "T_DEV xv6 = 3"
  "sz_dinode xv6 = 64" "sz_dirent xv6 = 16" "DPB xv6 = 32" "NINDIRECT xv6 = 128"
  by (simp_all add: xv6_def DPB_def NINDIRECT_def)

lemma sb16_simps:
  "size_sb sb16 = 16" "nblocks sb16 = 12" "ninodes sb16 = 8" "inodestart sb16 = 2"
  "bmapstart sb16 = 3"
  by (simp_all add: sb16_def)

lemma image16_reads:
  assumes "img = image16 inodes entries ptrs bitmap"
  shows "rd_superblock img off = sb16"
    and "rd_dinode img off = inodes ((off - 1024) div 64)"
    and "rd_dirent img off = entries (off div 512) (off mod 512 div 16)"
    and "rd_uint img off =
     (if off div 512 = 3
      then ucast (bitmap (off - 1536))
           OR push_bit 8 (ucast (bitmap (off - 1535)))
           OR push_bit 16 (ucast (bitmap (off - 1534)))
           OR push_bit 24 (ucast (bitmap (off - 1533)))
      else ptrs (off div 512) (off mod 512 div 4))"
    and "rd_uchar img off = bitmap (off - 1536)"
  by (simp_all add: assms image16_def)

lemmas layout_simps = xv6_simps sb16_simps blk_off_def inode_off_def
  entry_at_def ind_at_def NDIRECT_def

lemmas inode_simps = free_inode_def dir_inode_def file_inode_def

lemma upt_0_numeral: "[0..<numeral n] = 0 # [Suc 0..<numeral n]"
  by (simp add: upt_conv_Cons)

lemma upt_Suc0_numeral:
  "[Suc 0..<numeral n] = (if Suc 0 < numeral n then Suc 0 # [2..<numeral n] else [])"
  by (subst upt_rec) (simp only: numeral_2_eq_2)

lemma strncmp_numeral:
  "strncmp s t (numeral n) =
     (if (case s of [] \<Rightarrow> CHR 0x00 | c # _ \<Rightarrow> c) \<noteq> (case t of [] \<Rightarrow> CHR 0x00 | c # _ \<Rightarrow> c)
      then int (of_char (case s of [] \<Rightarrow> CHR 0x00 | c # _ \<Rightarrow> c))
           - int (of_char (case t of [] \<Rightarrow> CHR 0x00 | c # _ \<Rightarrow> c))
      else if (case s of [] \<Rightarrow> CHR 0x00 | c # _ \<Rightarrow> c) = CHR 0x00 then 0
      else strncmp (tl s) (tl t) (pred_numeral n))"
  by (simp add: numeral_eq_Suc Let_def)

lemmas ev = upt_0_numeral upt_Suc0_numeral strncmp_numeral layout_simps inode_simps
   entry_def no_ptrs_def root_entries_def bitmap_byte0_def

lemmas check_defs = scan_inode_def check_inode_def error_check_1_def error_check_2_def
  bitmap_end_def fs_end_def bad_addr_def error_check_3_def ec3_entry_def error_check_4_def
  ec4_entry_def error_check_5_def ec5_addr_def ec5_marked_free_def error_check_7_def
  error_check_8_def error_check_10_def ec10_entry_def error_check_11_def error_check_12_def
  cnt_inode_def dir_checks_def nonroot_checks_def file_checks_def

lemmas ev9 = ec9_candidate_def ec9_match_def

lemmas spec_defs = dir_refs_def dir_blocks_def direct_blocks_def entries_of_def
  shape_matches_def named_def

section \<open>Properties of the driver\<close>

lemma upt_split:
  assumes "d < n"
  shows "[0..<n] = [0..<d] @ d # [Suc d..<n]"
proof -
  have "[0..<d + (n - d)] = [0..<d] @ [d..<d + (n - d)]"
    by (rule upt_add_eq_append) simp
  moreover have "d + (n - d) = n" using assms by simp
  ultimately have "[0..<n] = [0..<d] @ [d..<n]" by simp
  then show ?thesis using assms by (simp add: upt_conv_Cons)
qed

lemma scan_inodes_append:
  "scan_inodes K img sb (xs @ ys) iu =
     (case scan_inodes K img sb xs iu of
        None \<Rightarrow> None
      | Some (Inl out) \<Rightarrow> Some (Inl out)
      | Some (Inr iu') \<Rightarrow> scan_inodes K img sb ys iu')"
  by (induction xs arbitrary: iu) (auto split: option.splits sum.splits)

lemma reaches_scan:
  "reaches K img d \<Longrightarrow> scan_upto K img d = Some (Inr (table_at K img d))"
  by (auto simp: reaches_def table_at_def split: option.splits sum.splits)

lemma scan_all_at:
  assumes r: "reaches K img d"
  shows "scan_inodes K img (rd_superblock img (BSIZE K))
           [0..<unat (ninodes (rd_superblock img (BSIZE K)))] (\<lambda>_. 0)
         = (case scan_inode K img (rd_superblock img (BSIZE K)) d (table_at K img d) of
              None \<Rightarrow> None
            | Some (Inl out) \<Rightarrow> Some (Inl out)
            | Some (Inr iu') \<Rightarrow>
                scan_inodes K img (rd_superblock img (BSIZE K))
                  [Suc d..<unat (ninodes (rd_superblock img (BSIZE K)))] iu')"
proof -
  from r have d: "d < unat (ninodes (rd_superblock img (BSIZE K)))"
    by (simp add: reaches_def)
  have p: "scan_inodes K img (rd_superblock img (BSIZE K)) [0..<d] (\<lambda>_. 0)
             = Some (Inr (table_at K img d))"
    using reaches_scan [OF r] by (simp add: scan_upto_def)
  show ?thesis
    by (subst upt_split [OF d]) (simp add: scan_inodes_append p)
qed

lemma main_stops_at:
  assumes r: "reaches K img d"
    and s: "scan_inode K img (rd_superblock img (BSIZE K)) d (table_at K img d) = Some (Inl out)"
  shows "main K img = Some out"
proof -
  from r have c3: "error_check_3 K img (rd_superblock img (BSIZE K)) = 0"
    by (simp add: reaches_def)
  show ?thesis
    by (simp add: main_def Let_def c3 scan_all_at [OF r] s)
qed

lemma main_diverges_at:
  assumes r: "reaches K img d"
    and s: "scan_inode K img (rd_superblock img (BSIZE K)) d (table_at K img d) = None"
  shows "main K img = None"
proof -
  from r have c3: "error_check_3 K img (rd_superblock img (BSIZE K)) = 0"
    by (simp add: reaches_def)
  show ?thesis
    by (simp add: main_def Let_def c3 scan_all_at [OF r] s)
qed

lemma check_inode_after_blocks:
  assumes "passes_block_checks K img sb nd iu"
  shows "check_inode K img sb nd n iu =
     (case (if type nd = T_DIR K then dir_checks K img sb nd n else Some None) of
        None \<Rightarrow> None
      | Some (Some out) \<Rightarrow> Some (Inl out)
      | Some None \<Rightarrow>
          (case (if type nd = T_FILE K then file_checks K img sb nd n else None) of
             Some out \<Rightarrow> Some (Inl out)
           | None \<Rightarrow> Some (Inr (snd (error_check_8 K img nd (snd (error_check_7 nd iu)))))))"
proof -
  obtain r7 i7 where e7: "error_check_7 nd iu = (r7, i7)"
    by (cases "error_check_7 nd iu")
  obtain r8 i8 where e8: "error_check_8 K img nd i7 = (r8, i8)"
    by (cases "error_check_8 K img nd i7")
  from assms have "r7 = 0" "r8 = 0"
    by (simp_all add: passes_block_checks_def e7 e8)
  have z: "snd (error_check_8 K img nd (snd (error_check_7 nd iu))) = i8"
    by (simp add: e7 e8)
  from assms \<open>r7 = 0\<close> \<open>r8 = 0\<close> show ?thesis
    unfolding z by (simp add: passes_block_checks_def check_inode_def e7 e8)
qed

text \<open>
  C9. An inode of type 0 (free) passes check 1, and the loop body does nothing else for it:
  no check on addresses, bitmap or duplicates, no directory or file check; it returns with
  the block usage table as it was and without any message.
\<close>

theorem free_inode_skipped:
  "type (rd_dinode img (inode_off K sb d)) = 0
   \<Longrightarrow> error_check_1 K (rd_dinode img (inode_off K sb d)) = 0
       \<and> scan_inode K img sb d in_use = Some (Inr in_use)"
  by (simp add: scan_inode_def check_inode_def error_check_1_def)

theorem free_inode_skipped_witness:
  "type (rd_dinode img_ok (inode_off xv6 sb16 0)) = 0
   \<and> error_check_1 xv6 (rd_dinode img_ok (inode_off xv6 sb16 0)) = 0
   \<and> scan_inode xv6 img_ok sb16 0 (\<lambda>_. 0) = Some (Inr (\<lambda>_. 0))"
proof -
  have h: "type (rd_dinode img_ok (inode_off xv6 sb16 0)) = 0"
    by (simp add: image16_reads [OF img_ok_def] layout_simps inode_simps)
  from h free_inode_skipped [OF h, of "\<lambda>_. 0"] show ?thesis
    by blast
qed

section \<open>Check 2\<close>

lemma ceil_div_nat:
  fixes n d :: nat
  assumes d: "0 < d"
  shows "(n + d - 1) div d = n div d + (if n mod d \<noteq> 0 then 1 else 0)"
proof -
  define q where "q = n div d"
  define r where "r = n mod d"
  define p where "p = d * q"
  have n: "n = p + r" and r: "r < d"
    using d by (simp_all add: q_def r_def p_def)
  have S: "d * Suc q = p + d" "d * Suc (Suc q) = p + d + d"
    by (simp_all add: p_def)
  show ?thesis
  proof (cases "r = 0")
    case True
    have "(n + d - 1) div d = q"
    proof (rule div_nat_eqI)
      show "d * q \<le> n + d - 1" unfolding p_def [symmetric] using n d by linarith
      show "n + d - 1 < d * Suc q" unfolding S using n True d by linarith
    qed
    with True show ?thesis by (simp add: q_def r_def)
  next
    case False
    have "(n + d - 1) div d = Suc q"
    proof (rule div_nat_eqI)
      show "d * Suc q \<le> n + d - 1" unfolding S using n False by linarith
      show "n + d - 1 < d * Suc (Suc q)" unfolding S using n r by linarith
    qed
    with False show ?thesis by (simp add: q_def r_def)
  qed
qed

lemma unat_bitmap_end:
  assumes B: "0 < BSIZE K" "8 * BSIZE K < 2 ^ 32" and ov: "bitmap_end_spec K sb < 2 ^ 32"
  shows "unat (bitmap_end K sb) = bitmap_end_spec K sb"
proof -
  define d where "d = 8 * BSIZE K"
  define w :: u32 where "w = of_nat d"
  define x where "x = bmapstart sb + size_sb sb div w"
  have dpos: "0 < d" using B(1) by (simp add: d_def)
  have d: "unat w = d" unfolding w_def using B(2) by (subst unat_of_nat) (simp add: d_def)
  have q: "unat (size_sb sb div w) = unat (size_sb sb) div d"
    by (simp only: unat_div d)
  have "(size_sb sb mod w = 0) = (unat (size_sb sb mod w) = 0)"
    by (simp only: unat_eq_0)
  then have m: "(size_sb sb mod w = 0) = (unat (size_sb sb) mod d = 0)"
    by (simp only: unat_mod d)
  have c: "bitmap_end_spec K sb
      = unat (bmapstart sb) + unat (size_sb sb) div d
        + (if unat (size_sb sb) mod d \<noteq> 0 then 1 else 0)"
    unfolding bitmap_end_spec_def d_def [symmetric]
    using ceil_div_nat [OF dpos, of "unat (size_sb sb)"] by simp
  have "unat (bmapstart sb) + unat (size_sb sb div w) < 2 ^ LENGTH(32)"
    using ov unfolding c q by simp
  then have a: "unat x = unat (bmapstart sb) + unat (size_sb sb) div d"
    unfolding x_def q [symmetric] by (rule unat_add_lem [THEN iffD1])
  have be: "bitmap_end K sb = (if size_sb sb mod w \<noteq> 0 then x + 1 else x)"
    by (simp add: bitmap_end_def x_def w_def d_def)
  show ?thesis
  proof (cases "unat (size_sb sb) mod d = 0")
    case True
    then show ?thesis unfolding be c using a m by simp
  next
    case False
    have "unat x + unat (1 :: u32) < 2 ^ LENGTH(32)"
      using ov False unfolding c a by simp
    then have "unat (x + 1) = unat x + unat (1 :: u32)"
      by (rule unat_add_lem [THEN iffD1])
    then show ?thesis unfolding be c using False a m by simp
  qed
qed

lemma ec2_direct_iff:
  "ec2_direct be fe nd xs = (\<exists>i\<in>set xs. bad_addr be fe (addrs nd i))"
  by (induction xs) auto

lemma ec2_indirect_iff:
  "ec2_indirect K img be fe a xs = (\<exists>i\<in>set xs. bad_addr be fe (ind_at K img a i))"
  by (induction xs) auto

lemma error_check_2_word:
  "(error_check_2 K img sb nd = 1) =
     (\<exists>a\<in>inode_refs K img nd. bad_addr (bitmap_end K sb) (fs_end sb) a)"
  unfolding error_check_2_def ec2_direct_iff ec2_indirect_iff inode_refs_def set_upt
  by (cases "addrs nd NDIRECT = 0") (simp_all only: bex_Un image_iff, auto)

text \<open>
  C1. On a superblock whose numbers do not overflow (a positive block size, at least one
  block, the end of the bitmap below \<open>2 ^ 32\<close>), check 2 reports a violation exactly when
  some non-zero block number among the 12 direct pointers of the inode, its indirect pointer
  and the \<open>NINDIRECT\<close> numbers in its indirect block is below
  \<open>bitmap_start + ceil (total_blocks / (8 * block_size))\<close> or above \<open>total_blocks - 1\<close>.
  When the run gets to a non-free inode of a valid type with such a violation, it ends with
  the message \<open>bad indirect address in inode\<close> and the exit status 1.
\<close>

theorem address_range_check:
  assumes "0 < BSIZE K" "8 * BSIZE K < 2 ^ 32" "size_sb sb \<noteq> 0" "bitmap_end_spec K sb < 2 ^ 32"
  shows "(error_check_2 K img sb nd = 1 \<longleftrightarrow>
            (\<exists>a\<in>inode_refs K img nd.
               a \<noteq> 0 \<and> (unat a < bitmap_end_spec K sb \<or> unat (size_sb sb) - 1 < unat a)))
         \<and> (sb = rd_superblock img (BSIZE K) \<and> reaches K img d
              \<and> nd = rd_dinode img (inode_off K sb d)
              \<and> type nd \<noteq> 0 \<and> error_check_1 K nd = 0 \<and> error_check_2 K img sb nd = 1
            \<longrightarrow> main K img = Some (die ''ERROR: bad indirect address in inode''))"
proof (intro conjI impI)
  have "unat (fs_end sb) = unat (size_sb sb) - 1"
    using assms(3) by (simp add: fs_end_def unat_minus_one)
  then show "error_check_2 K img sb nd = 1 \<longleftrightarrow>
      (\<exists>a\<in>inode_refs K img nd.
         a \<noteq> 0 \<and> (unat a < bitmap_end_spec K sb \<or> unat (size_sb sb) - 1 < unat a))"
    by (simp add: error_check_2_word bad_addr_def word_less_nat_alt
        unat_bitmap_end [OF assms(1,2,4)])
next
  assume h: "sb = rd_superblock img (BSIZE K) \<and> reaches K img d
     \<and> nd = rd_dinode img (inode_off K sb d)
     \<and> type nd \<noteq> 0 \<and> error_check_1 K nd = 0 \<and> error_check_2 K img sb nd = 1"
  then have sb: "rd_superblock img (BSIZE K) = sb" and r: "reaches K img d"
    and nd: "rd_dinode img (inode_off K sb d) = nd"
    and c: "type nd \<noteq> 0" "error_check_1 K nd = 0" "error_check_2 K img sb nd = 1"
    by blast+
  have "scan_inode K img sb d (table_at K img d)
      = Some (Inl (die ''ERROR: bad indirect address in inode''))"
    unfolding scan_inode_def nd using c by (simp add: check_inode_def)
  then show "main K img = Some (die ''ERROR: bad indirect address in inode'')"
    using main_stops_at [OF r] unfolding sb by blast
qed

theorem address_range_check_witness:
  "0 < BSIZE xv6 \<and> 8 * BSIZE xv6 < 2 ^ 32 \<and> size_sb sb16 \<noteq> 0
   \<and> bitmap_end_spec xv6 sb16 < 2 ^ 32
   \<and> sb16 = rd_superblock img_badaddr (BSIZE xv6) \<and> reaches xv6 img_badaddr 2
   \<and> file_inode 1 2 = rd_dinode img_badaddr (inode_off xv6 sb16 2)
   \<and> type (file_inode 1 2) \<noteq> 0 \<and> error_check_1 xv6 (file_inode 1 2) = 0
   \<and> error_check_2 xv6 img_badaddr sb16 (file_inode 1 2) = 1
   \<and> (\<exists>a\<in>inode_refs xv6 img_badaddr (file_inode 1 2).
         a \<noteq> 0 \<and> (unat a < bitmap_end_spec xv6 sb16 \<or> unat (size_sb sb16) - 1 < unat a))
   \<and> main xv6 img_badaddr = Some (die ''ERROR: bad indirect address in inode'')"
proof -
  have h: "0 < BSIZE xv6" "8 * BSIZE xv6 < 2 ^ 32" "size_sb sb16 \<noteq> 0"
    "bitmap_end_spec xv6 sb16 < 2 ^ 32"
    by (simp_all add: layout_simps bitmap_end_spec_def)
  have s: "sb16 = rd_superblock img_badaddr (BSIZE xv6)"
    by (simp add: image16_reads [OF img_badaddr_def] layout_simps)
  have u: "scan_upto xv6 img_badaddr 2 = Some (Inr ((\<lambda>_. 0)(4 := 1)))"
    by (simp add: ev image16_reads [OF img_badaddr_def] scan_upto_def check_defs)
  have r: "reaches xv6 img_badaddr 2"
    unfolding reaches_def u by (simp add: ev image16_reads [OF img_badaddr_def] check_defs)
  have n: "file_inode 1 2 = rd_dinode img_badaddr (inode_off xv6 sb16 2)"
    by (simp add: image16_reads [OF img_badaddr_def] layout_simps)
  have c: "type (file_inode 1 2) \<noteq> 0" "error_check_1 xv6 (file_inode 1 2) = 0"
    "error_check_2 xv6 img_badaddr sb16 (file_inode 1 2) = 1"
    by (simp_all add: ev image16_reads [OF img_badaddr_def] check_defs)
  from address_range_check [OF h, of img_badaddr "file_inode 1 2" 2] h s r n c
  show ?thesis by blast
qed

section \<open>Check 3\<close>

lemma ec3_entry_named: "ec3_entry K e \<Longrightarrow> named K e ''..'' \<and> inum e = 1"
  by (simp add: ec3_entry_def named_def split: if_splits)

lemma ec3_block_iff:
  "ec3_block K img a ks = (\<exists>k\<in>set ks. ec3_entry K (entry_at K img a k))"
  by (induction ks) auto

lemma ec3_direct_iff:
  "ec3_direct K img nd xs =
     (\<exists>i\<in>set xs. addrs nd i \<noteq> 0 \<and> ec3_block K img (addrs nd i) [0..<DPB K])"
  by (induction xs) auto

lemma direct_blocks_subset: "set (direct_blocks nd) \<subseteq> set (dir_blocks K img nd)"
  by (simp add: dir_blocks_def)

lemma in_entries_of:
  "a \<in> set bs \<Longrightarrow> k < DPB K \<Longrightarrow> entry_at K img a k \<in> set (entries_of K img bs)"
  by (force simp: entries_of_def)

lemma in_direct_blocks:
  "i < NDIRECT \<Longrightarrow> addrs nd i \<noteq> 0 \<Longrightarrow> addrs nd i \<in> set (direct_blocks nd)"
  by (auto simp: direct_blocks_def)

lemma error_check_3_found:
  assumes "error_check_3 K img sb = 0"
  shows "type (rd_dinode img (inode_off K sb 1)) = T_DIR K
     \<and> (\<exists>e\<in>set (entries_of K img (dir_blocks K img (rd_dinode img (inode_off K sb 1)))).
           named K e ''..'' \<and> inum e = 1)"
proof -
  let ?root = "rd_dinode img (inode_off K sb 1)"
  have off: "blk_off K (inodestart sb) + sz_dinode K = inode_off K sb 1"
    by (simp add: inode_off_def)
  from assms have t: "type ?root = T_DIR K" and f: "ec3_direct K img ?root [0..<NDIRECT]"
    by (simp_all add: error_check_3_def off split: if_splits)
  from f obtain i k where i: "i < NDIRECT" "addrs ?root i \<noteq> 0"
    and k: "k < DPB K" "ec3_entry K (entry_at K img (addrs ?root i) k)"
    by (auto simp: ec3_direct_iff ec3_block_iff)
  have "entry_at K img (addrs ?root i) k \<in> set (entries_of K img (dir_blocks K img ?root))"
    using in_direct_blocks [OF i] direct_blocks_subset [of ?root K img] k(1)
    by (intro in_entries_of) auto
  with ec3_entry_named [OF k(2)] t show ?thesis by blast
qed

text \<open>
  C5. Check 3 is the first thing the run does after reading the superblock. When inode 1 is
  not a directory, or no entry record of its data blocks is named \<open>..\<close> with the inode
  number 1, the run ends at once with the message \<open>root directory does not exist\<close> and the
  exit status 1: the outcome is this one whatever the inodes hold, so the loop over the
  inodes and its checks are not run.
\<close>

theorem root_check_first:
  assumes "root = rd_dinode img (inode_off K (rd_superblock img (BSIZE K)) 1)"
    and "type root \<noteq> T_DIR K
         \<or> \<not> (\<exists>e\<in>set (entries_of K img (dir_blocks K img root)).
                 named K e ''..'' \<and> inum e = 1)"
  shows "main K img = Some (die ''ERROR: root directory does not exist'')"
proof -
  have "error_check_3 K img (rd_superblock img (BSIZE K)) \<noteq> 0"
    using error_check_3_found [of K img "rd_superblock img (BSIZE K)"] assms by blast
  then show ?thesis by (simp add: main_def Let_def)
qed

theorem root_check_first_witness:
  "file_inode 1 4 = rd_dinode img_noroot (inode_off xv6 (rd_superblock img_noroot (BSIZE xv6)) 1)
   \<and> type (file_inode 1 4) \<noteq> T_DIR xv6
   \<and> main xv6 img_noroot = Some (die ''ERROR: root directory does not exist'')"
proof -
  have n: "file_inode 1 4
      = rd_dinode img_noroot (inode_off xv6 (rd_superblock img_noroot (BSIZE xv6)) 1)"
    by (simp add: image16_reads [OF img_noroot_def] layout_simps)
  have t: "type (file_inode 1 4) \<noteq> T_DIR xv6"
    by (simp add: layout_simps inode_simps)
  from root_check_first [OF n disjI1 [OF t]] n t show ?thesis by blast
qed

section \<open>Check 9\<close>

lemma ec9_direct_returns:
  assumes "ec9_loop K img sb d pos = Some y"
  shows "case pos of Outer i \<Rightarrow> True | Direct i j tmp \<Rightarrow> j = 0 \<longrightarrow> ec9_match K img d tmp"
proof (rule ec9_loop.raw_induct
    [where P = "\<lambda>K img sb d pos y.
       case pos of Outer i \<Rightarrow> True | Direct i j tmp \<Rightarrow> j = 0 \<longrightarrow> ec9_match K img d tmp",
     OF _ assms], goal_cases)
  case (1 S K img sb d pos y)
  show ?case
  proof (cases pos)
    case (Outer i)
    then show ?thesis by simp
  next
    case (Direct i j tmp)
    show ?thesis
    proof (cases "j = 0")
      case False
      with Direct show ?thesis by simp
    next
      case True
      show ?thesis
      proof (cases "ec9_match K img d tmp")
        case True
        with Direct show ?thesis by simp
      next
        case False
        with 1(2) Direct True have nxt: "S K img sb d (Direct (i + 1) 0 tmp) = Some y"
          by (auto simp: ec9_match_def NDIRECT_def split: if_splits)
        have "case Direct (i + 1) 0 tmp of Outer i \<Rightarrow> True
              | Direct i j tmp \<Rightarrow> j = 0 \<longrightarrow> ec9_match K img d tmp"
          by (rule 1(1) [OF nxt])
        with False show ?thesis by simp
      qed
    qed
  qed
qed

lemma ec9_direct_closed:
  "ec9_loop K img sb d (Direct i 0 tmp) = (if ec9_match K img d tmp then Some 0 else None)"
proof (cases "ec9_match K img d tmp")
  case True
  then show ?thesis
    by (subst ec9_loop.simps) (simp add: ec9_match_def NDIRECT_def)
next
  case False
  have "ec9_loop K img sb d (Direct i 0 tmp) = None"
  proof (cases "ec9_loop K img sb d (Direct i 0 tmp)")
    case None
    then show ?thesis .
  next
    case (Some y)
    from ec9_direct_returns [OF this] False show ?thesis by simp
  qed
  with False show ?thesis by simp
qed

lemma ec9_outer_closed:
  assumes "i \<le> unat (ninodes sb)"
  shows "ec9_loop K img sb d (Outer (of_nat i)) = ec9_first K img sb d [i..<unat (ninodes sb)]"
  using assms
proof (induction "unat (ninodes sb) - i" arbitrary: i)
  case 0
  then have i: "i = unat (ninodes sb)" by simp
  then have "\<not> (of_nat i :: u32) < ninodes sb" by simp
  then show ?case
    by (subst ec9_loop.simps) (simp add: i)
next
  case (Suc n)
  then have lt: "i < unat (ninodes sb)" by simp
  have b: "i < 2 ^ 32" using lt unsigned_less [of "ninodes sb", where 'a = nat] by simp
  have u: "unat (of_nat i :: u32) = i" using b by (simp add: unat_of_nat)
  have w: "(of_nat i :: u32) < ninodes sb" using lt u by (simp add: word_less_nat_alt)
  have one: "((of_nat i :: u32) \<noteq> 1) = (i \<noteq> 1)"
    using u by (simp add: word_unat_eq_iff)
  have nx: "(of_nat i :: u32) + 1 = of_nat (Suc i)" by simp
  have ih: "ec9_loop K img sb d (Outer (of_nat (Suc i)))
      = ec9_first K img sb d [Suc i..<unat (ninodes sb)]"
    using Suc(1) [of "Suc i"] Suc(2) lt by simp
  show ?case
    by (subst ec9_loop.simps)
      (simp add: w u one nx ih ec9_direct_closed upt_conv_Cons [OF lt] ec9_candidate_def
         del: of_nat_Suc)
qed

lemma error_check_9_closed:
  "error_check_9 K img sb d = ec9_first K img sb d [0..<unat (ninodes sb)]"
  using ec9_outer_closed [of 0 sb K img d] by (simp add: error_check_9_def)

lemma ec9_first_Some0:
  "ec9_first K img sb d xs = Some 0 \<Longrightarrow>
     \<exists>ys i zs. xs = ys @ i # zs \<and> (\<forall>j\<in>set ys. \<not> ec9_candidate K img sb d j)
        \<and> ec9_candidate K img sb d i \<and> ec9_match K img d (rd_dinode img (inode_off K sb i))"
proof (induction xs)
  case Nil
  then show ?case by simp
next
  case (Cons x xs)
  show ?case
  proof (cases "ec9_candidate K img sb d x")
    case True
    with Cons.prems have "ec9_match K img d (rd_dinode img (inode_off K sb x))"
      by (simp split: if_splits)
    with True have "x # xs = [] @ x # xs \<and> (\<forall>j\<in>set []. \<not> ec9_candidate K img sb d j)
        \<and> ec9_candidate K img sb d x \<and> ec9_match K img d (rd_dinode img (inode_off K sb x))"
      by simp
    then show ?thesis by blast
  next
    case False
    with Cons.prems have "ec9_first K img sb d xs = Some 0" by simp
    from Cons.IH [OF this] obtain ys i zs where
      "xs = ys @ i # zs" "\<forall>j\<in>set ys. \<not> ec9_candidate K img sb d j"
      "ec9_candidate K img sb d i" "ec9_match K img d (rd_dinode img (inode_off K sb i))"
      by blast
    with False have "x # xs = (x # ys) @ i # zs
        \<and> (\<forall>j\<in>set (x # ys). \<not> ec9_candidate K img sb d j)
        \<and> ec9_candidate K img sb d i \<and> ec9_match K img d (rd_dinode img (inode_off K sb i))"
      by simp
    then show ?thesis by blast
  qed
qed

lemma upt_decomp:
  assumes "[0..<n] = ys @ i # zs"
  shows "i < n \<and> set ys = {0..<i}"
proof -
  have l: "length ys < n" using arg_cong [OF assms, of length] by simp
  have "[0..<n] ! length ys = i" unfolding assms by simp
  with l have i: "i = length ys" by simp
  have "take (length ys) [0..<n] = ys" unfolding assms by simp
  with l have "ys = [0..<length ys]" by (simp add: take_upt)
  then have "set ys = {0..<length ys}" by (metis set_upt)
  with i l show ?thesis by simp
qed

lemma ec9_first_agree:
  assumes "rd_dinode img' = rd_dinode img" "\<forall>a. entry_at K img' a 0 = entry_at K img a 0"
  shows "ec9_first K img' sb d xs = ec9_first K img sb d xs"
  using assms by (induction xs) (simp_all add: ec9_candidate_def ec9_match_def)

lemma ec9_first_skip:
  "\<forall>j\<in>set ys. \<not> ec9_candidate K img sb d j \<Longrightarrow>
     ec9_first K img sb d (ys @ zs) = ec9_first K img sb d zs"
  by (induction ys) simp_all

text \<open>When the first candidate does not match, check 9 does not return.\<close>

lemma error_check_9_diverges:
  assumes i: "i < unat (ninodes sb)"
    and f: "\<forall>j<i. \<not> ec9_candidate K img sb d j"
    and c: "ec9_candidate K img sb d i"
    and m: "\<not> ec9_match K img d (rd_dinode img (inode_off K sb i))"
  shows "error_check_9 K img sb d = None"
proof -
  from f have "\<forall>j\<in>set [0..<i]. \<not> ec9_candidate K img sb d j" by simp
  then show ?thesis
    unfolding error_check_9_closed upt_split [OF i]
    using c m by (simp add: ec9_first_skip)
qed

text \<open>
  C3. Check 9 reports the inode number \<open>d\<close> as found only when \<open>d\<close> is in the first
  entry record of a referenced data block of a candidate parent directory; more precisely, of
  the block in the first direct slot of the first candidate, the later candidates being
  passed over because the inner loop steps the index of the outer one. The records after the
  first one of a block are not looked at: an image with the same inodes and the same first
  records gives the same answer.
\<close>

theorem check_9_first_record_only:
  assumes f: "error_check_9 K img sb d = Some 0"
    and a: "rd_dinode img' = rd_dinode img" "\<forall>a. entry_at K img' a 0 = entry_at K img a 0"
  shows "(\<exists>i<unat (ninodes sb).
            ec9_candidate K img sb d i \<and> (\<forall>j<i. \<not> ec9_candidate K img sb d j)
            \<and> (\<exists>b\<in>set (dir_blocks K img (rd_dinode img (inode_off K sb i))).
                  inum (entry_at K img b 0) = d))
         \<and> error_check_9 K img' sb d = Some 0"
proof
  from f have "ec9_first K img sb d [0..<unat (ninodes sb)] = Some 0"
    by (simp add: error_check_9_closed)
  from ec9_first_Some0 [OF this] obtain ys i zs where
    xs: "[0..<unat (ninodes sb)] = ys @ i # zs"
    and n: "\<forall>j\<in>set ys. \<not> ec9_candidate K img sb d j"
    and c: "ec9_candidate K img sb d i"
    and m: "ec9_match K img d (rd_dinode img (inode_off K sb i))"
    by blast
  let ?nd = "rd_dinode img (inode_off K sb i)"
  from upt_decomp [OF xs] have i: "i < unat (ninodes sb)" and ys: "set ys = {0..<i}"
    by simp_all
  from m have "addrs ?nd 0 \<in> set (direct_blocks ?nd)"
    by (intro in_direct_blocks) (simp_all add: ec9_match_def NDIRECT_def)
  with direct_blocks_subset [of ?nd K img] have "addrs ?nd 0 \<in> set (dir_blocks K img ?nd)"
    by blast
  with m have "\<exists>b\<in>set (dir_blocks K img ?nd). inum (entry_at K img b 0) = d"
    by (auto simp: ec9_match_def)
  with i c n ys
  show "\<exists>i<unat (ninodes sb).
          ec9_candidate K img sb d i \<and> (\<forall>j<i. \<not> ec9_candidate K img sb d j)
          \<and> (\<exists>b\<in>set (dir_blocks K img (rd_dinode img (inode_off K sb i))).
                inum (entry_at K img b 0) = d)"
    by auto
next
  show "error_check_9 K img' sb d = Some 0"
    using f by (simp add: error_check_9_closed ec9_first_agree [OF a])
qed

theorem check_9_first_record_only_witness:
  "error_check_9 xv6 img_found sb16 2 = Some 0
   \<and> rd_dinode img_found = rd_dinode img_found
   \<and> (\<forall>a. entry_at xv6 img_found a 0 = entry_at xv6 img_found a 0)
   \<and> (\<exists>i<unat (ninodes sb16).
         ec9_candidate xv6 img_found sb16 2 i \<and> (\<forall>j<i. \<not> ec9_candidate xv6 img_found sb16 2 j)
         \<and> (\<exists>b\<in>set (dir_blocks xv6 img_found (rd_dinode img_found (inode_off xv6 sb16 i))).
               inum (entry_at xv6 img_found b 0) = 2))"
proof -
  have f: "error_check_9 xv6 img_found sb16 2 = Some 0"
    by (simp add: error_check_9_closed ev9 ev image16_reads [OF img_found_def] found_entries_def)
  have a: "rd_dinode img_found = rd_dinode img_found"
    "\<forall>a. entry_at xv6 img_found a 0 = entry_at xv6 img_found a 0"
    by simp_all
  from check_9_first_record_only [OF f a] f a show ?thesis by blast
qed

lemma img_tree_hangs:
  "error_check_9 xv6 img_tree sb16 2 = None \<and> main xv6 img_tree = None"
proof -
  have n: "error_check_9 xv6 img_tree sb16 2 = None"
  proof (rule error_check_9_diverges [where i = 3])
    show "3 < unat (ninodes sb16)" by (simp add: sb16_simps)
    show "\<forall>j<3. \<not> ec9_candidate xv6 img_tree sb16 2 j"
    proof (intro allI impI)
      fix j :: nat
      assume "j < 3"
      then have "j = 0 \<or> j = 1 \<or> j = 2" by arith
      then show "\<not> ec9_candidate xv6 img_tree sb16 2 j"
        by (auto simp: ev9 ev image16_reads [OF img_tree_def])
    qed
    show "ec9_candidate xv6 img_tree sb16 2 3"
      by (simp add: ev9 ev image16_reads [OF img_tree_def])
    show "\<not> ec9_match xv6 img_tree 2 (rd_dinode img_tree (inode_off xv6 sb16 3))"
      by (simp add: ev9 ev image16_reads [OF img_tree_def] tree_entries_def)
  qed
  have s: "rd_superblock img_tree (BSIZE xv6) = sb16"
    by (simp add: image16_reads [OF img_tree_def] layout_simps)
  have u: "scan_upto xv6 img_tree 2 = Some (Inr ((\<lambda>_. 0)(4 := 1)))"
    by (simp add: ev image16_reads [OF img_tree_def] tree_entries_def scan_upto_def check_defs)
  have r: "reaches xv6 img_tree 2"
    unfolding reaches_def u by (simp add: ev image16_reads [OF img_tree_def] tree_entries_def check_defs)
  have t: "table_at xv6 img_tree 2 = (\<lambda>_. 0)(4 := 1)"
    by (simp add: table_at_def u)
  have "scan_inode xv6 img_tree sb16 2 ((\<lambda>_. 0)(4 := 1)) = None"
    by (simp add: n ev image16_reads [OF img_tree_def] tree_entries_def check_defs)
  then have "main xv6 img_tree = None"
    using main_diverges_at [OF r] by (simp add: s t)
  with n show ?thesis by simp
qed

text \<open>
  C10. Check 9 leaves the root out of the candidate parents. For a directory whose only
  entry is in the root, the claim is that check 9 returns 1 and the run ends with the message
  \<open>inode marked use but not found in a directory\<close>. On the image \<open>img_lone\<close> the entry
  \<open>d\<close> of the root is the only record with the inode number 2, and yet check 9 does not
  return for the inode 2, nor does the run end: the inner loop has taken the other directory,
  inode 3, as candidate and never leaves it. The same happens on the tree \<open>img_tree\<close>.
\<close>

theorem check_9_hangs_on_lone_child:
  "dir_refs xv6 img_lone sb16 2 = 1
   \<and> inum (entry_at xv6 img_lone 4 2) = 2
   \<and> error_check_9 xv6 img_lone sb16 2 = None \<and> main xv6 img_lone = None
   \<and> error_check_9 xv6 img_tree sb16 2 = None \<and> main xv6 img_tree = None"
proof -
  have d: "dir_refs xv6 img_lone sb16 2 = 1"
    by (simp add: spec_defs ev image16_reads [OF img_lone_def] lone_entries_def)
  have e: "inum (entry_at xv6 img_lone 4 2) = 2"
    by (simp add: ev image16_reads [OF img_lone_def] lone_entries_def)
  have n: "error_check_9 xv6 img_lone sb16 2 = None"
  proof (rule error_check_9_diverges [where i = 3])
    show "3 < unat (ninodes sb16)" by (simp add: sb16_simps)
    show "\<forall>j<3. \<not> ec9_candidate xv6 img_lone sb16 2 j"
    proof (intro allI impI)
      fix j :: nat
      assume "j < 3"
      then have "j = 0 \<or> j = 1 \<or> j = 2" by arith
      then show "\<not> ec9_candidate xv6 img_lone sb16 2 j"
        by (auto simp: ev9 ev image16_reads [OF img_lone_def])
    qed
    show "ec9_candidate xv6 img_lone sb16 2 3"
      by (simp add: ev9 ev image16_reads [OF img_lone_def])
    show "\<not> ec9_match xv6 img_lone 2 (rd_dinode img_lone (inode_off xv6 sb16 3))"
      by (simp add: ev9 ev image16_reads [OF img_lone_def] lone_entries_def)
  qed
  have s: "rd_superblock img_lone (BSIZE xv6) = sb16"
    by (simp add: image16_reads [OF img_lone_def] layout_simps)
  have u: "scan_upto xv6 img_lone 2 = Some (Inr ((\<lambda>_. 0)(4 := 1)))"
    by (simp add: ev image16_reads [OF img_lone_def] lone_entries_def scan_upto_def check_defs)
  have r: "reaches xv6 img_lone 2"
    unfolding reaches_def u
    by (simp add: ev image16_reads [OF img_lone_def] lone_entries_def check_defs)
  have t: "table_at xv6 img_lone 2 = (\<lambda>_. 0)(4 := 1)"
    by (simp add: table_at_def u)
  have "scan_inode xv6 img_lone sb16 2 ((\<lambda>_. 0)(4 := 1)) = None"
    by (simp add: n ev image16_reads [OF img_lone_def] lone_entries_def check_defs)
  then have "main xv6 img_lone = None"
    using main_diverges_at [OF r] by (simp add: s t)
  with d e n img_tree_hangs show ?thesis by simp
qed

section \<open>Check 4\<close>

lemma shape_matches_append:
  "shape_matches K n (xs @ ys) = shape_matches K n xs + shape_matches K n ys"
  by (simp add: shape_matches_def)

lemma shape_matches_Nil: "shape_matches K n [] = 0"
  by (simp add: shape_matches_def)

lemma ec4_block_shape:
  "ec4_block K img n a ks chk = chk + int (shape_matches K n (map (entry_at K img a) ks))"
  by (induction ks arbitrary: chk) (simp_all add: ec4_entry_def shape_matches_def named_def)

lemma entries_of_Nil: "entries_of K img [] = []"
  by (simp add: entries_of_def)

lemma entries_of_Cons:
  "entries_of K img (a # bs) = map (entry_at K img a) [0..<DPB K] @ entries_of K img bs"
  by (simp add: entries_of_def)

lemma entries_of_append:
  "entries_of K img (as @ bs) = entries_of K img as @ entries_of K img bs"
  by (simp add: entries_of_def)

lemma ec4_direct_shape:
  "ec4_direct K img n nd xs chk =
     chk + int (shape_matches K n
                  (entries_of K img (filter (\<lambda>a. a \<noteq> 0) (map (addrs nd) xs))))"
proof (induction xs arbitrary: chk)
  case Nil
  then show ?case by (simp add: entries_of_Nil shape_matches_Nil)
next
  case (Cons i xs)
  show ?case
    by (cases "addrs nd i = 0")
      (simp_all add: Cons.IH ec4_block_shape entries_of_Cons shape_matches_append)
qed

lemma error_check_4_direct:
  "(error_check_4 K img nd n = 0) =
     (shape_matches K n (entries_of K img (direct_blocks nd)) = 2)"
  by (simp add: error_check_4_def ec4_direct_shape direct_blocks_def)

text \<open>
  C7, as stated, fails: check 4 is claimed to pass exactly when the matches counted over all
  entry records of the data blocks of the directory are 2. On \<open>img_ind\<close> the data blocks
  of directory 2 hold three matches (one of them in a block listed in the indirect block) and
  check 4 passes.
\<close>

theorem shape_check_counterexample:
  "error_check_4 xv6 img_ind ind_dir_inode 2 = 0
   \<and> shape_matches xv6 2 (entries_of xv6 img_ind (dir_blocks xv6 img_ind ind_dir_inode)) = 3"
  by (simp add: error_check_4_direct spec_defs ev image16_reads [OF img_ind_def]
      ind_dir_inode_def ind_entries_def ind_ptrs_def)

text \<open>
  C7, amended: check 4 passes exactly when the matches counted over the entry records of the
  blocks in the 12 direct slots of the directory are 2, a match being a record named \<open>.\<close>
  with the inode number of the directory or a record named \<open>..\<close> with any inode number;
  the indirect block is not read. When the run gets to a directory that has passed the checks
  1, 2, 5, 7 and 8 and the count is not 2, it ends with the message
  \<open>directory not properly formatted\<close> and the exit status 1.
\<close>

theorem shape_check_direct:
  "(error_check_4 K img nd n = 0 \<longleftrightarrow>
      shape_matches K n (entries_of K img (direct_blocks nd)) = 2)
   \<and> (sb = rd_superblock img (BSIZE K) \<and> reaches K img d
        \<and> nd = rd_dinode img (inode_off K sb d) \<and> n = of_nat d \<and> type nd = T_DIR K
        \<and> passes_block_checks K img sb nd (table_at K img d)
        \<and> shape_matches K n (entries_of K img (direct_blocks nd)) \<noteq> 2
      \<longrightarrow> main K img = Some (die ''ERROR: directory not properly formatted''))"
proof (intro conjI impI)
  show "error_check_4 K img nd n = 0 \<longleftrightarrow>
      shape_matches K n (entries_of K img (direct_blocks nd)) = 2"
    by (rule error_check_4_direct)
next
  assume h: "sb = rd_superblock img (BSIZE K) \<and> reaches K img d
        \<and> nd = rd_dinode img (inode_off K sb d) \<and> n = of_nat d \<and> type nd = T_DIR K
        \<and> passes_block_checks K img sb nd (table_at K img d)
        \<and> shape_matches K n (entries_of K img (direct_blocks nd)) \<noteq> 2"
  then have sb: "rd_superblock img (BSIZE K) = sb" and r: "reaches K img d"
    and nd: "rd_dinode img (inode_off K sb d) = nd" and n: "of_nat d = n"
    and t: "type nd = T_DIR K"
    and p: "passes_block_checks K img sb nd (table_at K img d)"
    and m: "shape_matches K n (entries_of K img (direct_blocks nd)) \<noteq> 2"
    by blast+
  from m have "error_check_4 K img nd n \<noteq> 0"
    by (simp add: error_check_4_direct)
  then have "scan_inode K img sb d (table_at K img d)
      = Some (Inl (die ''ERROR: directory not properly formatted''))"
    unfolding scan_inode_def nd n check_inode_after_blocks [OF p]
    by (simp add: t dir_checks_def)
  then show "main K img = Some (die ''ERROR: directory not properly formatted'')"
    using main_stops_at [OF r] unfolding sb by blast
qed

theorem shape_check_direct_witness:
  "sb16 = rd_superblock img_nodotdot (BSIZE xv6) \<and> reaches xv6 img_nodotdot 2
   \<and> dir_inode 5 = rd_dinode img_nodotdot (inode_off xv6 sb16 2) \<and> (2 :: u32) = of_nat 2
   \<and> type (dir_inode 5) = T_DIR xv6
   \<and> passes_block_checks xv6 img_nodotdot sb16 (dir_inode 5) (table_at xv6 img_nodotdot 2)
   \<and> shape_matches xv6 2 (entries_of xv6 img_nodotdot (direct_blocks (dir_inode 5))) \<noteq> 2
   \<and> error_check_4 xv6 img_nodotdot (dir_inode 5) 2 \<noteq> 0
   \<and> main xv6 img_nodotdot = Some (die ''ERROR: directory not properly formatted'')"
proof -
  note rd = image16_reads [OF img_nodotdot_def]
  have s: "sb16 = rd_superblock img_nodotdot (BSIZE xv6)"
    by (simp add: rd layout_simps)
  have u: "scan_upto xv6 img_nodotdot 2 = Some (Inr ((\<lambda>_. 0)(4 := 1)))"
    by (simp add: ev rd nodotdot_entries_def scan_upto_def check_defs)
  have r: "reaches xv6 img_nodotdot 2"
    unfolding reaches_def u by (simp add: ev rd nodotdot_entries_def check_defs)
  have t: "table_at xv6 img_nodotdot 2 = (\<lambda>_. 0)(4 := 1)"
    by (simp add: table_at_def u)
  have n: "dir_inode 5 = rd_dinode img_nodotdot (inode_off xv6 sb16 2)" "(2 :: u32) = of_nat 2"
    "type (dir_inode 5) = T_DIR xv6"
    by (simp_all add: rd layout_simps inode_simps)
  have p: "passes_block_checks xv6 img_nodotdot sb16 (dir_inode 5) (table_at xv6 img_nodotdot 2)"
    unfolding t by (simp add: passes_block_checks_def ev rd check_defs)
  have m: "shape_matches xv6 2 (entries_of xv6 img_nodotdot (direct_blocks (dir_inode 5))) \<noteq> 2"
    by (simp add: spec_defs ev rd nodotdot_entries_def)
  from shape_check_direct [of xv6 img_nodotdot "dir_inode 5" 2 sb16 2] s r n p m
  show ?thesis by blast
qed

section \<open>Check 6\<close>

text \<open>
  C4. The sweep runs once, after the loop over the inodes, but it does not test the bit of a
  block at byte \<open>block / 8\<close>, bit \<open>block % 8\<close>: it starts at the byte
  \<open>size / 8 - nblocks / 8\<close> of the bitmap and takes the bits from there on to stand for the
  blocks \<open>bmapstart + 1\<close>, \<open>bmapstart + 2\<close> and so on. On \<open>img_stale\<close> the bitmap
  marks block 6, no inode refers to it, and the run ends with the exit status 0. On
  \<open>img_far\<close> every data block marked in the bitmap is in the block usage table, and the
  run ends with the message of check 6.
\<close>

theorem bitmap_sweep_misaligned:
  "bitmap_bit xv6 img_stale sb16 6 \<and> table_at xv6 img_stale 8 6 = 0
   \<and> error_check_6 xv6 img_stale sb16 (table_at xv6 img_stale 8) = Some 0
   \<and> main xv6 img_stale = Some ([], 0)
   \<and> filter (bitmap_bit xv6 img_far sb16) [4..<16] = [4, 9]
   \<and> table_at xv6 img_far 8 4 = 1 \<and> table_at xv6 img_far 8 9 = 1
   \<and> main xv6 img_far = Some (die ''ERROR: bitmap marks block in use but it is not in use'')"
proof -
  have b: "bitmap_bit xv6 img_stale sb16 6"
    by (simp add: bitmap_bit_def ev image16_reads [OF img_stale_def])
  have u: "scan_upto xv6 img_stale 8 = Some (Inr ((\<lambda>_. 0)(4 := 1, 5 := 1)))"
    by (simp add: ev image16_reads [OF img_stale_def] scan_upto_def check_defs)
  have t: "table_at xv6 img_stale 8 = (\<lambda>_. 0)(4 := 1, 5 := 1)"
    by (simp add: table_at_def u)
  have e: "error_check_6 xv6 img_stale sb16 ((\<lambda>_. 0)(4 := 1, 5 := 1)) = Some 0"
    by (simp add: error_check_6_def ec6_loop.simps ev image16_reads [OF img_stale_def])
  have s: "rd_superblock img_stale (BSIZE xv6) = sb16"
    by (simp add: image16_reads [OF img_stale_def] layout_simps)
  have c: "error_check_3 xv6 img_stale sb16 = 0"
    by (simp add: ev image16_reads [OF img_stale_def] check_defs)
  have m: "main xv6 img_stale = Some ([], 0)"
    using u by (simp add: main_def s c e scan_upto_def sb16_simps)
  have u': "scan_upto xv6 img_far 8 = Some (Inr ((\<lambda>_. 0)(4 := 1, 9 := 1)))"
    by (simp add: ev image16_reads [OF img_far_def] bitmap_far_def scan_upto_def check_defs)
  have t': "table_at xv6 img_far 8 = (\<lambda>_. 0)(4 := 1, 9 := 1)"
    by (simp add: table_at_def u')
  have e': "error_check_6 xv6 img_far sb16 ((\<lambda>_. 0)(4 := 1, 9 := 1)) = Some 1"
    by (simp add: error_check_6_def ec6_loop.simps ev image16_reads [OF img_far_def] bitmap_far_def)
  have s': "rd_superblock img_far (BSIZE xv6) = sb16"
    by (simp add: image16_reads [OF img_far_def] layout_simps)
  have c': "error_check_3 xv6 img_far sb16 = 0"
    by (simp add: ev image16_reads [OF img_far_def] check_defs)
  have m': "main xv6 img_far = Some (die ''ERROR: bitmap marks block in use but it is not in use'')"
    using u' by (simp add: main_def s' c' e' scan_upto_def sb16_simps)
  have f: "filter (bitmap_bit xv6 img_far sb16) [4..<16] = [4, 9]"
    by (simp add: bitmap_bit_def ev image16_reads [OF img_far_def] bitmap_far_def)
  from b t e m f t' m' show ?thesis by simp
qed

section \<open>Checks 11 and 12\<close>

lemma refs_in_append: "refs_in n (xs @ ys) = refs_in n xs + refs_in n ys"
  by (simp add: refs_in_def)

lemma refs_in_Nil: "refs_in n [] = 0"
  by (simp add: refs_in_def)

lemma cnt_block_refs:
  "cnt_block K img n a ks cnt = cnt + of_nat (refs_in n (map (entry_at K img a) ks))"
  by (induction ks arbitrary: cnt) (simp_all add: refs_in_def)

lemma cnt_direct_refs:
  "cnt_direct K img n nd xs cnt =
     cnt + of_nat (refs_in n (entries_of K img (filter (\<lambda>a. a \<noteq> 0) (map (addrs nd) xs))))"
proof (induction xs arbitrary: cnt)
  case Nil
  then show ?case by (simp add: entries_of_Nil refs_in_def)
next
  case (Cons i xs)
  show ?case
    by (cases "addrs nd i = 0")
      (simp_all add: Cons.IH cnt_block_refs entries_of_Cons refs_in_append)
qed

lemma cnt_indirect_refs:
  "cnt_indirect K img n a xs cnt =
     cnt + of_nat (refs_in n (entries_of K img
                     (filter (\<lambda>a. a \<noteq> 0) (map (ind_at K img a) xs))))"
proof (induction xs arbitrary: cnt)
  case Nil
  then show ?case by (simp add: entries_of_Nil refs_in_def)
next
  case (Cons i xs)
  show ?case
    by (cases "ind_at K img a i = 0")
      (simp_all add: Cons.IH cnt_block_refs entries_of_Cons refs_in_append)
qed

lemma cnt_inode_refs:
  "cnt_inode K img n nd cnt =
     cnt + of_nat (if type nd = T_DIR K then refs_in n (entries_of K img (dir_blocks K img nd))
                   else 0)"
  by (simp add: cnt_inode_def cnt_direct_refs cnt_indirect_refs dir_blocks_def
      direct_blocks_def entries_of_append entries_of_Nil refs_in_append refs_in_Nil)

lemma cnt_inodes_refs:
  "cnt_inodes K img sb n xs cnt =
     cnt + of_nat (\<Sum>i\<leftarrow>xs.
       (let nd = rd_dinode img (inode_off K sb i)
        in if type nd = T_DIR K
           then length (filter (\<lambda>e. inum e = n) (entries_of K img (dir_blocks K img nd)))
           else 0))"
  by (induction xs arbitrary: cnt) (simp_all add: cnt_inode_refs refs_in_def Let_def)

lemma cnt_inodes_dir_refs:
  "cnt_inodes K img sb n [0..<unat (ninodes sb)] 0 = of_nat (dir_refs K img sb n)"
  by (simp add: cnt_inodes_refs dir_refs_def)

lemma of_nat_eq_u32:
  assumes "m < 2 ^ 32"
  shows "((of_nat m :: u32) = w) = (m = unat w)"
proof
  assume "(of_nat m :: u32) = w"
  then have "unat (of_nat m :: u32) = unat w" by simp
  with assms show "m = unat w" by (simp add: unat_of_nat)
next
  assume "m = unat w"
  then show "(of_nat m :: u32) = w" by simp
qed

text \<open>
  C2, as stated, fails: when the count for a directory other than the root differs from 1,
  the run is claimed to end with the message of check 12. On \<open>img_pair\<close> inode 2 is a
  directory, two entry records carry its number (the entry \<open>d\<close> of the root and its own
  entry \<open>.\<close>), check 12 would return 1, and the run ends before that with the message of
  check 9, which comes first and does not take the root as a candidate parent.
\<close>

theorem directory_reference_count_counterexample:
  "type (rd_dinode img_pair (inode_off xv6 sb16 2)) = T_DIR xv6
   \<and> dir_refs xv6 img_pair sb16 2 = 2
   \<and> error_check_12 xv6 img_pair sb16 (rd_dinode img_pair (inode_off xv6 sb16 2)) 2 = 1
   \<and> main xv6 img_pair = Some (die ''ERROR: inode marked use but not found in a directory'')"
proof -
  note rd = image16_reads [OF img_pair_def]
  have y: "type (rd_dinode img_pair (inode_off xv6 sb16 2)) = T_DIR xv6"
    by (simp add: rd layout_simps inode_simps)
  have d: "dir_refs xv6 img_pair sb16 2 = 2"
    by (simp add: spec_defs ev rd pair_entries_def)
  have c: "error_check_12 xv6 img_pair sb16 (rd_dinode img_pair (inode_off xv6 sb16 2)) 2 = 1"
    by (simp add: error_check_12_def cnt_inodes_dir_refs d)
  have n: "error_check_9 xv6 img_pair sb16 2 = Some 1"
    by (simp add: error_check_9_closed ev9 ev rd)
  have s: "rd_superblock img_pair (BSIZE xv6) = sb16"
    by (simp add: rd layout_simps)
  have u: "scan_upto xv6 img_pair 2 = Some (Inr ((\<lambda>_. 0)(4 := 1)))"
    by (simp add: ev rd pair_entries_def scan_upto_def check_defs)
  have r: "reaches xv6 img_pair 2"
    unfolding reaches_def u by (simp add: ev rd pair_entries_def check_defs)
  have t: "table_at xv6 img_pair 2 = (\<lambda>_. 0)(4 := 1)"
    by (simp add: table_at_def u)
  have "scan_inode xv6 img_pair sb16 2 ((\<lambda>_. 0)(4 := 1))
      = Some (Inl (die ''ERROR: inode marked use but not found in a directory''))"
    by (simp add: n ev rd pair_entries_def check_defs)
  then have "main xv6 img_pair
      = Some (die ''ERROR: inode marked use but not found in a directory'')"
    using main_stops_at [OF r] by (simp add: s t)
  with y d c show ?thesis by simp
qed

text \<open>
  C2, amended: check 12 passes exactly when the number of entry records that carry the inode
  number of the directory, counted over every record of every direct and indirect data block
  of every directory inode, is 1 (the count is kept in 32 bits, so it is taken to be below
  \<open>2 ^ 32\<close>). When the run gets to check 12 for a directory other than the root, that is,
  the directory has passed the checks 1, 2, 5, 7, 8 and 4 and check 9 has returned 0 for it,
  and the count is not 1, the run ends with the message
  \<open>directory appears more than once in file system\<close> and the exit status 1.
\<close>

theorem directory_reference_count:
  assumes "dir_refs K img sb n < 2 ^ 32"
  shows "(error_check_12 K img sb nd n = 0 \<longleftrightarrow> dir_refs K img sb n = 1)
   \<and> (sb = rd_superblock img (BSIZE K) \<and> reaches K img d
        \<and> nd = rd_dinode img (inode_off K sb d) \<and> n = of_nat d
        \<and> type nd = T_DIR K \<and> n \<noteq> 1
        \<and> passes_block_checks K img sb nd (table_at K img d)
        \<and> error_check_4 K img nd n = 0 \<and> error_check_9 K img sb n = Some 0
        \<and> dir_refs K img sb n \<noteq> 1
      \<longrightarrow> main K img = Some (die ''ERROR: directory appears more than once in file system''))"
proof (intro conjI impI)
  show c: "error_check_12 K img sb nd n = 0 \<longleftrightarrow> dir_refs K img sb n = 1"
    using of_nat_eq_u32 [OF assms, of 1]
    by (simp add: error_check_12_def cnt_inodes_dir_refs)
  assume h: "sb = rd_superblock img (BSIZE K) \<and> reaches K img d
        \<and> nd = rd_dinode img (inode_off K sb d) \<and> n = of_nat d
        \<and> type nd = T_DIR K \<and> n \<noteq> 1
        \<and> passes_block_checks K img sb nd (table_at K img d)
        \<and> error_check_4 K img nd n = 0 \<and> error_check_9 K img sb n = Some 0
        \<and> dir_refs K img sb n \<noteq> 1"
  then have sb: "rd_superblock img (BSIZE K) = sb" and r: "reaches K img d"
    and nd: "rd_dinode img (inode_off K sb d) = nd" and n: "of_nat d = n"
    and t: "type nd = T_DIR K" "n \<noteq> 1"
    and p: "passes_block_checks K img sb nd (table_at K img d)"
    and e: "error_check_4 K img nd n = 0" "error_check_9 K img sb n = Some 0"
    and m: "dir_refs K img sb n \<noteq> 1"
    by blast+
  from m c have "error_check_12 K img sb nd n \<noteq> 0" by simp
  then have "scan_inode K img sb d (table_at K img d)
      = Some (Inl (die ''ERROR: directory appears more than once in file system''))"
    unfolding scan_inode_def nd n check_inode_after_blocks [OF p]
    by (simp add: t e dir_checks_def nonroot_checks_def)
  then show "main K img = Some (die ''ERROR: directory appears more than once in file system'')"
    using main_stops_at [OF r] unfolding sb by blast
qed

theorem directory_reference_count_witness:
  "dir_refs xv6 img_found sb16 2 < 2 ^ 32
   \<and> sb16 = rd_superblock img_found (BSIZE xv6) \<and> reaches xv6 img_found 2
   \<and> dir_inode 5 = rd_dinode img_found (inode_off xv6 sb16 2) \<and> (2 :: u32) = of_nat 2
   \<and> type (dir_inode 5) = T_DIR xv6 \<and> (2 :: u32) \<noteq> 1
   \<and> passes_block_checks xv6 img_found sb16 (dir_inode 5) (table_at xv6 img_found 2)
   \<and> error_check_4 xv6 img_found (dir_inode 5) 2 = 0
   \<and> error_check_9 xv6 img_found sb16 2 = Some 0
   \<and> dir_refs xv6 img_found sb16 2 = 3
   \<and> error_check_12 xv6 img_found sb16 (dir_inode 5) 2 \<noteq> 0
   \<and> main xv6 img_found = Some (die ''ERROR: directory appears more than once in file system'')"
proof -
  note rd = image16_reads [OF img_found_def]
  have d: "dir_refs xv6 img_found sb16 2 = 3"
    by (simp add: spec_defs ev rd found_entries_def)
  then have b: "dir_refs xv6 img_found sb16 2 < 2 ^ 32" "dir_refs xv6 img_found sb16 2 \<noteq> 1"
    by simp_all
  have s: "sb16 = rd_superblock img_found (BSIZE xv6)"
    by (simp add: rd layout_simps)
  have u: "scan_upto xv6 img_found 2 = Some (Inr ((\<lambda>_. 0)(4 := 1)))"
    by (simp add: ev rd found_entries_def scan_upto_def check_defs)
  have r: "reaches xv6 img_found 2"
    unfolding reaches_def u by (simp add: ev rd found_entries_def check_defs)
  have t: "table_at xv6 img_found 2 = (\<lambda>_. 0)(4 := 1)"
    by (simp add: table_at_def u)
  have n: "dir_inode 5 = rd_dinode img_found (inode_off xv6 sb16 2)" "(2 :: u32) = of_nat 2"
    "type (dir_inode 5) = T_DIR xv6" "(2 :: u32) \<noteq> 1"
    by (simp_all add: rd layout_simps inode_simps)
  have p: "passes_block_checks xv6 img_found sb16 (dir_inode 5) (table_at xv6 img_found 2)"
    unfolding t by (simp add: passes_block_checks_def ev rd check_defs)
  have e: "error_check_4 xv6 img_found (dir_inode 5) 2 = 0"
    "error_check_9 xv6 img_found sb16 2 = Some 0"
    by (simp_all add: error_check_9_closed ev9 ev rd found_entries_def check_defs)
  from directory_reference_count [OF b(1), of "dir_inode 5" 2] d b s r n p e
  show ?thesis by blast
qed

text \<open>
  C8. Check 11 passes exactly when the number of entry records that carry the inode number of
  the file, counted in the same way, is the link count stored in the inode. When the run
  gets to a file that has passed the checks 1, 2, 5, 7 and 8 and the count differs from its
  link count, it ends with the message \<open>bad reference count for file\<close> and the exit
  status 1.
\<close>

theorem file_reference_count:
  assumes "dir_refs K img sb n < 2 ^ 32"
  shows "(error_check_11 K img sb nd n = 0 \<longleftrightarrow> dir_refs K img sb n = unat (nlink nd))
   \<and> (sb = rd_superblock img (BSIZE K) \<and> reaches K img d
        \<and> nd = rd_dinode img (inode_off K sb d) \<and> n = of_nat d
        \<and> type nd = T_FILE K \<and> T_FILE K \<noteq> T_DIR K
        \<and> passes_block_checks K img sb nd (table_at K img d)
        \<and> dir_refs K img sb n \<noteq> unat (nlink nd)
      \<longrightarrow> main K img = Some (die ''ERROR: bad reference count for file''))"
proof (intro conjI impI)
  show c: "error_check_11 K img sb nd n = 0 \<longleftrightarrow> dir_refs K img sb n = unat (nlink nd)"
    using of_nat_eq_u32 [OF assms, of "nlink nd"]
    by (simp add: error_check_11_def cnt_inodes_dir_refs)
  assume h: "sb = rd_superblock img (BSIZE K) \<and> reaches K img d
        \<and> nd = rd_dinode img (inode_off K sb d) \<and> n = of_nat d
        \<and> type nd = T_FILE K \<and> T_FILE K \<noteq> T_DIR K
        \<and> passes_block_checks K img sb nd (table_at K img d)
        \<and> dir_refs K img sb n \<noteq> unat (nlink nd)"
  then have sb: "rd_superblock img (BSIZE K) = sb" and r: "reaches K img d"
    and nd: "rd_dinode img (inode_off K sb d) = nd" and n: "of_nat d = n"
    and t: "type nd = T_FILE K" "T_FILE K \<noteq> T_DIR K"
    and p: "passes_block_checks K img sb nd (table_at K img d)"
    and m: "dir_refs K img sb n \<noteq> unat (nlink nd)"
    by blast+
  from m c have "error_check_11 K img sb nd n \<noteq> 0" by simp
  then have "scan_inode K img sb d (table_at K img d)
      = Some (Inl (die ''ERROR: bad reference count for file''))"
    unfolding scan_inode_def nd n check_inode_after_blocks [OF p]
    by (simp add: t file_checks_def)
  then show "main K img = Some (die ''ERROR: bad reference count for file'')"
    using main_stops_at [OF r] unfolding sb by blast
qed

theorem file_reference_count_witness:
  "dir_refs xv6 img_nlink sb16 2 < 2 ^ 32
   \<and> sb16 = rd_superblock img_nlink (BSIZE xv6) \<and> reaches xv6 img_nlink 2
   \<and> file_inode 2 5 = rd_dinode img_nlink (inode_off xv6 sb16 2) \<and> (2 :: u32) = of_nat 2
   \<and> type (file_inode 2 5) = T_FILE xv6 \<and> T_FILE xv6 \<noteq> T_DIR xv6
   \<and> passes_block_checks xv6 img_nlink sb16 (file_inode 2 5) (table_at xv6 img_nlink 2)
   \<and> dir_refs xv6 img_nlink sb16 2 = 1 \<and> unat (nlink (file_inode 2 5)) = 2
   \<and> error_check_11 xv6 img_nlink sb16 (file_inode 2 5) 2 \<noteq> 0
   \<and> main xv6 img_nlink = Some (die ''ERROR: bad reference count for file'')"
proof -
  note rd = image16_reads [OF img_nlink_def]
  have d: "dir_refs xv6 img_nlink sb16 2 = 1" "unat (nlink (file_inode 2 5)) = 2"
    by (simp_all add: spec_defs ev rd)
  then have b: "dir_refs xv6 img_nlink sb16 2 < 2 ^ 32"
    "dir_refs xv6 img_nlink sb16 2 \<noteq> unat (nlink (file_inode 2 5))"
    by simp_all
  have s: "sb16 = rd_superblock img_nlink (BSIZE xv6)"
    by (simp add: rd layout_simps)
  have u: "scan_upto xv6 img_nlink 2 = Some (Inr ((\<lambda>_. 0)(4 := 1)))"
    by (simp add: ev rd scan_upto_def check_defs)
  have r: "reaches xv6 img_nlink 2"
    unfolding reaches_def u by (simp add: ev rd check_defs)
  have t: "table_at xv6 img_nlink 2 = (\<lambda>_. 0)(4 := 1)"
    by (simp add: table_at_def u)
  have n: "file_inode 2 5 = rd_dinode img_nlink (inode_off xv6 sb16 2)" "(2 :: u32) = of_nat 2"
    "type (file_inode 2 5) = T_FILE xv6" "T_FILE xv6 \<noteq> T_DIR xv6"
    by (simp_all add: rd layout_simps inode_simps)
  have p: "passes_block_checks xv6 img_nlink sb16 (file_inode 2 5) (table_at xv6 img_nlink 2)"
    unfolding t by (simp add: passes_block_checks_def ev rd check_defs)
  from file_reference_count [OF b(1), of "file_inode 2 5" 2] d b s r n p
  show ?thesis by blast
qed

section \<open>Check 7\<close>

lemma ec7_loop_mono:
  "ec7_loop nd iu xs = (r, iu') \<Longrightarrow> iu x \<noteq> 0 \<Longrightarrow> iu' x \<noteq> 0"
  by (induction xs arbitrary: iu) (auto split: if_splits)

lemma ec7_loop_marks:
  "ec7_loop nd iu xs = (0, iu') \<Longrightarrow> i \<in> set xs \<Longrightarrow> addrs nd i \<noteq> 0
   \<Longrightarrow> iu' (addrs nd i) \<noteq> 0"
proof (induction xs arbitrary: iu)
  case Nil
  then show ?case by simp
next
  case (Cons j xs)
  show ?case
  proof (cases "addrs nd j = 0")
    case True
    with Cons show ?thesis by auto
  next
    case False
    with Cons.prems(1) have z: "iu (addrs nd j) = 0"
      and rest: "ec7_loop nd (iu(addrs nd j := 1)) xs = (0, iu')"
      by (auto split: if_splits)
    show ?thesis
    proof (cases "i = j")
      case True
      have "(iu(addrs nd j := 1)) (addrs nd j) \<noteq> 0" by simp
      from ec7_loop_mono [OF rest this] True show ?thesis by simp
    next
      case False
      with Cons.prems(2) have "i \<in> set xs" by simp
      from Cons.IH [OF rest this Cons.prems(3)] show ?thesis .
    qed
  qed
qed

lemma ec7_loop_hit:
  "i \<in> set xs \<Longrightarrow> addrs nd i \<noteq> 0 \<Longrightarrow> iu (addrs nd i) \<noteq> 0
   \<Longrightarrow> fst (ec7_loop nd iu xs) = 1"
proof (induction xs arbitrary: iu)
  case Nil
  then show ?case by simp
next
  case (Cons j xs)
  show ?case
  proof (cases "addrs nd j \<noteq> 0 \<and> iu (addrs nd j) \<noteq> 0")
    case True
    then show ?thesis by simp
  next
    case False
    with Cons.prems have i: "i \<in> set xs" by auto
    from False have "fst (ec7_loop nd iu (j # xs)) = fst (ec7_loop nd iu xs)
        \<or> fst (ec7_loop nd iu (j # xs)) = fst (ec7_loop nd (iu(addrs nd j := 1)) xs)"
      by auto
    moreover have "fst (ec7_loop nd iu xs) = 1"
      using i Cons.prems(2,3) by (rule Cons.IH [of iu])
    moreover have "(iu(addrs nd j := 1)) (addrs nd i) \<noteq> 0"
      using Cons.prems(3) by simp
    with i Cons.prems(2) have "fst (ec7_loop nd (iu(addrs nd j := 1)) xs) = 1"
      by (rule Cons.IH [of "iu(addrs nd j := 1)"])
    ultimately show ?thesis by auto
  qed
qed

lemma ec8_loop_mono:
  "ec8_loop K img a iu xs = (r, iu') \<Longrightarrow> iu x \<noteq> 0 \<Longrightarrow> iu' x \<noteq> 0"
  by (induction xs arbitrary: iu) (auto split: if_splits)

lemma error_check_8_mono:
  "error_check_8 K img nd iu = (r, iu') \<Longrightarrow> iu x \<noteq> 0 \<Longrightarrow> iu' x \<noteq> 0"
  by (auto simp: error_check_8_def ec8_loop_mono split: if_splits)

text \<open>When the loop body returns for an inode in use, checks 7 and 8 have passed and the
  new table is the one they leave.\<close>

lemma check_inode_Inr:
  assumes "check_inode K img sb nd n iu = Some (Inr iu')" "type nd \<noteq> 0"
  shows "\<exists>iu7. error_check_7 nd iu = (0, iu7) \<and> error_check_8 K img nd iu7 = (0, iu')"
proof -
  obtain r7 i7 where e7: "error_check_7 nd iu = (r7, i7)"
    by (cases "error_check_7 nd iu")
  obtain r8 i8 where e8: "error_check_8 K img nd i7 = (r8, i8)"
    by (cases "error_check_8 K img nd i7")
  from assms have "r7 = 0 \<and> r8 = 0 \<and> i8 = iu'"
    by (auto simp: check_inode_def e7 e8 split: if_splits option.splits)
  with e7 e8 show ?thesis by simp
qed

lemma check_inode_mono:
  assumes "check_inode K img sb nd n iu = Some (Inr iu')" "iu x \<noteq> 0"
  shows "iu' x \<noteq> 0"
proof (cases "type nd = 0")
  case True
  with assms show ?thesis by (simp add: check_inode_def error_check_1_def)
next
  case False
  from check_inode_Inr [OF assms(1) False] obtain iu7 where
    "error_check_7 nd iu = (0, iu7)" "error_check_8 K img nd iu7 = (0, iu')" by blast
  then show ?thesis
    using assms(2) ec7_loop_mono error_check_8_mono unfolding error_check_7_def by blast
qed

lemma check_inode_marks:
  assumes "check_inode K img sb nd n iu = Some (Inr iu')" "type nd \<noteq> 0"
    and "i \<le> NDIRECT" "addrs nd i \<noteq> 0"
  shows "iu' (addrs nd i) \<noteq> 0"
proof -
  from check_inode_Inr [OF assms(1,2)] obtain iu7 where
    e7: "error_check_7 nd iu = (0, iu7)" and e8: "error_check_8 K img nd iu7 = (0, iu')"
    by blast
  from assms(3) have "i \<in> set [0..<NDIRECT + 1]" by (simp only: set_upt) simp
  from ec7_loop_marks [OF e7 [unfolded error_check_7_def] this assms(4)]
  have "iu7 (addrs nd i) \<noteq> 0" .
  from error_check_8_mono [OF e8 this] show ?thesis .
qed

lemma scan_inodes_mono:
  "scan_inodes K img sb xs iu = Some (Inr iu') \<Longrightarrow> iu x \<noteq> 0 \<Longrightarrow> iu' x \<noteq> 0"
proof (induction xs arbitrary: iu)
  case Nil
  then show ?case by simp
next
  case (Cons a xs)
  from Cons.prems(1) obtain iu1 where
    s: "scan_inode K img sb a iu = Some (Inr iu1)"
    and rest: "scan_inodes K img sb xs iu1 = Some (Inr iu')"
    by (auto split: option.splits sum.splits)
  from s Cons.prems(2) have "iu1 x \<noteq> 0"
    unfolding scan_inode_def by (rule check_inode_mono)
  from Cons.IH [OF rest this] show ?case .
qed

lemma scan_inodes_marks:
  assumes "scan_inodes K img sb xs iu = Some (Inr iu')" "a \<in> set xs"
    and "type (rd_dinode img (inode_off K sb a)) \<noteq> 0"
    and "i \<le> NDIRECT" "addrs (rd_dinode img (inode_off K sb a)) i \<noteq> 0"
  shows "iu' (addrs (rd_dinode img (inode_off K sb a)) i) \<noteq> 0"
  using assms(1,2)
proof (induction xs arbitrary: iu)
  case Nil
  then show ?case by simp
next
  case (Cons b xs)
  from Cons.prems(1) obtain iu1 where
    s: "scan_inode K img sb b iu = Some (Inr iu1)"
    and rest: "scan_inodes K img sb xs iu1 = Some (Inr iu')"
    by (auto split: option.splits sum.splits)
  show ?case
  proof (cases "a = b")
    case True
    from s have "iu1 (addrs (rd_dinode img (inode_off K sb a)) i) \<noteq> 0"
      unfolding scan_inode_def True [symmetric]
      by (rule check_inode_marks) (rule assms(3-5))+
    from scan_inodes_mono [OF rest this] show ?thesis .
  next
    case False
    with Cons.prems(2) have "a \<in> set xs" by simp
    from Cons.IH [OF rest this] show ?thesis .
  qed
qed

text \<open>
  C6. Two inodes in use, \<open>a\<close> before \<open>b\<close>, have the same non-zero block number \<open>x\<close>
  in one of their 13 slots (the 12 direct ones and the indirect one). When the run gets to
  \<open>b\<close> and \<open>b\<close> passes the checks 1, 2 and 5, the block usage table already marks
  \<open>x\<close>, from the pass over \<open>a\<close>; check 7 fails on \<open>b\<close> and the run ends there with
  the message \<open>direct address used more than once\<close> and the exit status 1.
\<close>

theorem shared_block_detected:
  assumes r: "reaches K img b" and sb: "sb = rd_superblock img (BSIZE K)"
    and ab: "a < b"
    and na: "na = rd_dinode img (inode_off K sb a)" "type na \<noteq> 0"
    and nb: "nb = rd_dinode img (inode_off K sb b)" "type nb \<noteq> 0"
    and c: "error_check_1 K nb = 0" "error_check_2 K img sb nb = 0"
           "error_check_5 K img sb nb = 0"
    and x: "i \<le> NDIRECT" "j \<le> NDIRECT" "addrs na i = x" "addrs nb j = x" "x \<noteq> 0"
  shows "table_at K img b x \<noteq> 0
     \<and> scan_inode K img sb b (table_at K img b)
         = Some (Inl (die ''ERROR: direct address used more than once''))
     \<and> main K img = Some (die ''ERROR: direct address used more than once'')"
proof -
  have p: "scan_inodes K img sb [0..<b] (\<lambda>_. 0) = Some (Inr (table_at K img b))"
    using reaches_scan [OF r] by (simp add: scan_upto_def sb)
  have "table_at K img b (addrs (rd_dinode img (inode_off K sb a)) i) \<noteq> 0"
    using p
  proof (rule scan_inodes_marks)
    show "a \<in> set [0..<b]" using ab by simp
    show "type (rd_dinode img (inode_off K sb a)) \<noteq> 0" using na by simp
    show "i \<le> NDIRECT" by (rule x(1))
    show "addrs (rd_dinode img (inode_off K sb a)) i \<noteq> 0" using na x by simp
  qed
  then have t: "table_at K img b x \<noteq> 0" using na x by simp
  have "fst (error_check_7 nb (table_at K img b)) = 1"
    unfolding error_check_7_def
  proof (rule ec7_loop_hit)
    show "j \<in> set [0..<NDIRECT + 1]" using x(2) by (simp only: set_upt) simp
    show "addrs nb j \<noteq> 0" using x by simp
    show "table_at K img b (addrs nb j) \<noteq> 0" using t x by simp
  qed
  then have s: "scan_inode K img sb b (table_at K img b)
      = Some (Inl (die ''ERROR: direct address used more than once''))"
    unfolding scan_inode_def nb(1) [symmetric] using nb(2) c
    by (cases "error_check_7 nb (table_at K img b)") (simp add: check_inode_def)
  then have "main K img = Some (die ''ERROR: direct address used more than once'')"
    using main_stops_at [OF r] unfolding sb by blast
  with t s show ?thesis by simp
qed

theorem shared_block_detected_witness:
  "reaches xv6 img_shared 3 \<and> sb16 = rd_superblock img_shared (BSIZE xv6) \<and> (2 :: nat) < 3
   \<and> file_inode 1 5 = rd_dinode img_shared (inode_off xv6 sb16 2)
   \<and> file_inode 1 5 = rd_dinode img_shared (inode_off xv6 sb16 3)
   \<and> type (file_inode 1 5) \<noteq> 0
   \<and> error_check_1 xv6 (file_inode 1 5) = 0
   \<and> error_check_2 xv6 img_shared sb16 (file_inode 1 5) = 0
   \<and> error_check_5 xv6 img_shared sb16 (file_inode 1 5) = 0
   \<and> 0 \<le> NDIRECT \<and> addrs (file_inode 1 5) 0 = 5 \<and> (5 :: u32) \<noteq> 0
   \<and> table_at xv6 img_shared 3 5 \<noteq> 0
   \<and> scan_inode xv6 img_shared sb16 3 (table_at xv6 img_shared 3)
       = Some (Inl (die ''ERROR: direct address used more than once''))
   \<and> main xv6 img_shared = Some (die ''ERROR: direct address used more than once'')"
proof -
  note rd = image16_reads [OF img_shared_def]
  have s: "sb16 = rd_superblock img_shared (BSIZE xv6)"
    by (simp add: rd layout_simps)
  have u: "scan_upto xv6 img_shared 3 = Some (Inr ((\<lambda>_. 0)(4 := 1, 5 := 1)))"
    by (simp add: ev rd shared_entries_def scan_upto_def check_defs)
  have r: "reaches xv6 img_shared 3"
    unfolding reaches_def u by (simp add: ev rd shared_entries_def check_defs)
  have n: "file_inode 1 5 = rd_dinode img_shared (inode_off xv6 sb16 2)"
    "file_inode 1 5 = rd_dinode img_shared (inode_off xv6 sb16 3)"
    "type (file_inode 1 5) \<noteq> 0"
    by (simp_all add: rd layout_simps inode_simps)
  have c: "error_check_1 xv6 (file_inode 1 5) = 0"
    "error_check_2 xv6 img_shared sb16 (file_inode 1 5) = 0"
    "error_check_5 xv6 img_shared sb16 (file_inode 1 5) = 0"
    by (simp_all add: ev rd check_defs)
  have x: "0 \<le> NDIRECT" "addrs (file_inode 1 5) 0 = 5" "(5 :: u32) \<noteq> 0" "(2 :: nat) < 3"
    by (simp_all add: inode_simps)
  from shared_block_detected [OF r s x(4) n(1) n(3) n(2) n(3) c x(1) x(1) x(2) x(2) x(3)]
    r s n c x
  show ?thesis by simp
qed

end
